theory Spec2Isabelle
  imports Main "HOL-Library.Monad_Syntax"
begin

section \<open>The catalog-to-document renderer of create-prompt_HeroUI.js\<close>

text \<open>
  The script reads a catalog of component descriptions from \<^verbatim>\<open>full.json\<close>, appends
  one Markdown block per component to a fixed preamble and writes the result to
  \<^verbatim>\<open>heroui-prompt-guide.md\<close>.

  Strings are byte strings (\<^typ>\<open>string\<close> is a list of 8-bit characters): a JavaScript
  string is modelled by its UTF-8 encoding, which is what the script writes to the file.
  The only character the script inspects is the ASCII character \<^verbatim>\<open>|\<close>, whose byte never
  occurs inside the encoding of another character.

  The script is modelled twice. This section gives its template on the records of the
  data model, where every field has the type the template expects. A later section gives
  the script on whatever \<^verbatim>\<open>JSON.parse\<close> may return, with the raises of the runtime; on a
  parsed value that has the shape of the data model the two coincide (lemma
  \<open>render_json_decode\<close>).
\<close>

subsection \<open>Data model\<close>

text \<open>
  One entry of a component's \<^verbatim>\<open>props\<close> array. The fields \<^verbatim>\<open>default\<close> and
  \<^verbatim>\<open>options\<close> may be absent (\<^const>\<open>None\<close>). Literal values are strings: the guide
  generated from the catalog shows the defaults \<^verbatim>\<open>`false`\<close> and \<^verbatim>\<open>`0`\<close>, where the JSON
  values \<^verbatim>\<open>false\<close> and \<^verbatim>\<open>0\<close> are falsy and would leave the cell empty.
\<close>

record PropertyRecord =
  prop_name :: string
  prop_type :: string
  prop_default :: "string option"
  prop_options :: "string list option"
  prop_description :: string

record ComponentRecord =
  comp_name :: string
  comp_description :: string
  comp_import :: string
  comp_props :: "PropertyRecord list"
  comp_example :: string

type_synonym Catalog = "ComponentRecord list"

subsection \<open>String operations of the JavaScript runtime\<close>

definition pipe :: char where
  "pipe = CHR ''|''"

definition backslash :: char where
  "backslash = CHR 0x5C"

text \<open>
  \<^verbatim>\<open>s.replace(/\|/g, '\\|')\<close>: every \<^verbatim>\<open>|\<close> of \<open>s\<close>, from left to right, is replaced
  by the two characters backslash and \<^verbatim>\<open>|\<close>; the replacement text is not scanned again.
\<close>

fun replace_pipe :: "string \<Rightarrow> string" where
  "replace_pipe [] = []"
| "replace_pipe (c # cs) =
     (if c = pipe then backslash # pipe # replace_pipe cs else c # replace_pipe cs)"

text \<open>\<^verbatim>\<open>xs.join(sep)\<close> on an array of strings.\<close>

fun join :: "string \<Rightarrow> string list \<Rightarrow> string" where
  "join sep [] = []"
| "join sep [x] = x"
| "join sep (x # y # ys) = x @ sep @ join sep (y # ys)"

subsection \<open>One table row\<close>

text \<open>
  The row template of the script is
  \<^verbatim>\<open>| `${prop.name}` | `${prop.type.replace(/\|/g, '\\|')}` | ${prop.default ? `\`${prop.default}\`` : ''} | ${prop.options ? `\`${prop.options.join('`, `')}\``: ''} | ${prop.description} |\<close>.
  Each interpolated expression between two column delimiters is given a name here.
\<close>

definition name_cell :: "PropertyRecord \<Rightarrow> string" where
  "name_cell prop = ''`'' @ prop_name prop @ ''`''"

definition type_cell :: "PropertyRecord \<Rightarrow> string" where
  "type_cell prop = ''`'' @ replace_pipe (prop_type prop) @ ''`''"

text \<open>
  \<^verbatim>\<open>prop.default ? ... : ''\<close> tests the truthiness of the field: \<^verbatim>\<open>undefined\<close> (the
  field is absent) and the empty string are both falsy.
\<close>

definition default_cell :: "PropertyRecord \<Rightarrow> string" where
  "default_cell prop =
     (case prop_default prop of
        None \<Rightarrow> ''''
      | Some d \<Rightarrow> if d = [] then '''' else ''`'' @ d @ ''`'')"

text \<open>An array is truthy even when it is empty.\<close>

definition options_cell :: "PropertyRecord \<Rightarrow> string" where
  "options_cell prop =
     (case prop_options prop of
        None \<Rightarrow> ''''
      | Some os \<Rightarrow> ''`'' @ join ''`, `'' os @ ''`'')"

definition render_row :: "PropertyRecord \<Rightarrow> string" where
  "render_row prop =
     ''| '' @ name_cell prop @ '' | '' @ type_cell prop @ '' | '' @ default_cell prop
      @ '' | '' @ options_cell prop @ '' | '' @ prop_description prop @ '' |''"

subsection \<open>One component block\<close>

definition table_header :: string where
  "table_header =
     ''| Name | Type | Default | Options | Description |\<newline>'' @
     ''| --- | --- | --- | --- | --- |\<newline>''"

definition block_head :: "ComponentRecord \<Rightarrow> string" where
  "block_head component =
     ''\<newline>'' @
     ''## '' @ comp_name component @ ''\<newline>'' @
     ''\<newline>'' @
     ''<details>\<newline>'' @
     ''<summary>View details for '' @ comp_name component @ ''</summary>\<newline>'' @
     ''\<newline>'' @
     ''**Description:** '' @ comp_description component @ ''\<newline>'' @
     ''\<newline>'' @
     ''**Import:**\<newline>'' @
     ''```typescript\<newline>'' @
     comp_import component @ ''\<newline>'' @
     ''```\<newline>'' @
     ''\<newline>'' @
     ''**Props:**\<newline>'' @
     ''\<newline>''"

definition block_tail :: "ComponentRecord \<Rightarrow> string" where
  "block_tail component =
     ''\<newline>'' @
     ''\<newline>'' @
     ''**Example:**\<newline>'' @
     ''```typescript\<newline>'' @
     comp_example component @ ''\<newline>'' @
     ''```\<newline>'' @
     ''\<newline>'' @
     ''</details>\<newline>'' @
     ''---\<newline>''"

text \<open>
  The text appended to \<^verbatim>\<open>mdxContent\<close> for one component: the template literal of the
  \<^verbatim>\<open>forEach\<close> callback, with
  \<^verbatim>\<open>component.props.map(prop => ...).join('\n')\<close> between the table header and the
  example.
\<close>

definition render_block :: "ComponentRecord \<Rightarrow> string" where
  "render_block component =
     block_head component @ table_header @
     join ''\<newline>'' (map render_row (comp_props component)) @
     block_tail component"

subsection \<open>The whole document\<close>

text \<open>The initial value of \<^verbatim>\<open>mdxContent\<close>: the template literal of lines 6 to 206.\<close>

definition preamble :: string where
  \<open>preamble = concat
   [''---\<newline>'',
    ''title: 'Hero UI Component Prompt Guide'\<newline>'',
    ''description: 'A guide for AI agents on how to use Hero UI components.'\<newline>'',
    ''---\<newline>'',
    ''\<newline>'',
    ''# Hero UI Component Prompt Guide\<newline>'',
    ''\<newline>'',
    ''You are a senior frontend engineer tasked with building a web page using the Hero UI component library. Your primary goal is to create beautiful, responsive, and maintainable user interfaces.\<newline>'',
    ''\<newline>'',
    ''## Your Workflow\<newline>'',
    ''\<newline>'',
    ''1.  **Understand the Goal:** First, fully understand the user's request.\<newline>'',
    ''2.  **Plan the Layout:** Before writing any code, plan the overall layout of the page. Think about the structure, hierarchy, and how different sections will fit together. Follow the Design Strategy rules below.\<newline>'',
    ''3.  **Component Selection:** Based on your layout plan, select the most appropriate Hero UI components from the documentation below. **You must prioritize using Hero UI components for all parts of the page wherever possible.**\<newline>'',
    ''4.  **Prop Assignment:** For each component, decide which props are necessary to achieve the desired functionality and appearance. You have all the documentation you need; do not ask the user for props. Make educated decisions based on the context.\<newline>'',
    ''5.  **Code Generation:** Write the complete React code for the page, importing all necessary components from `@heroui/react`.\<newline>'',
    ''\<newline>'',
    ''## Design Strategy\<newline>'',
    ''\<newline>'',
    ''### Responsive Design: Mobile-First\<newline>'',
    ''You **must** design mobile-first. Start with the base styles for mobile screens and then use Tailwind's responsive breakpoints (`sm:`, `md:`, `lg:`, `xl:`) to adapt the layout for larger screens.\<newline>'',
    ''\<newline>'',
    ''### Layout: Flexbox & Grid\<newline>'',
    ''You **must** always think in terms of Flexbox and Grid for layouts.\<newline>'',
    ''*   **Grid:** Use for major, large-scale page layouts and structures.\<newline>'',
    ''*   **Flexbox:** Use for smaller component arrangements and alignments within a container.\<newline>'',
    ''\<newline>'',
    ''## Styling Rules\<newline>'',
    ''\<newline>'',
    ''*   **Always Use Semantic Colors:** Semantic colors are available for most components (via the `color` prop) and utility classes (`bg-primary`, `text-danger-500`, etc.). You **must** use them at all times to ensure theme consistency.\<newline>'',
    ''*   **Prioritize the `color` Prop:** When a component supports a `color` prop, it's the preferred way to apply semantic colors.\<newline>'',
    ''*   **Use Semantic Color Classes:** When customizing with `className` or `classNames`, use theme-aware semantic color utilities.\<newline>'',
    ''*   **No Absolute Colors:** NEVER use absolute or specific color classes (e.g., `bg-red-500`, `text-green-600`). This breaks the theme and creates inconsistent UI.\<newline>'',
    ''\<newline>'',
    ''---\<newline>'',
    ''\<newline>'',
    ''## Color System Deep Dive\<newline>'',
    ''\<newline>'',
    ''To effectively use Hero UI's color system, it's important to understand its structure. The colors are defined by the following TypeScript types:\<newline>'',
    ''\<newline>'',
    ''```typescript\<newline>'',
    ''type ColorScale = {\<newline>'',
    ''  50: string;\<newline>'',
    ''  100: string;\<newline>'',
    ''  200: string;\<newline>'',
    ''  300: string;\<newline>'',
    ''  400: string;\<newline>'',
    ''  500: string;\<newline>'',
    ''  600: string;\<newline>'',
    ''  700: string;\<newline>'',
    ''  800: string;\<newline>'',
    ''  900: string;\<newline>'',
    ''  foreground: string; // contrast color\<newline>'',
    ''  DEFAULT: string;\<newline>'',
    ''};\<newline>'',
    ''\<newline>'',
    ''type BaseColors = {\<newline>'',
    ''  background: ColorScale; // the page background color\<newline>'',
    ''  foreground: ColorScale; // the page text color\<newline>'',
    ''  divider: ColorScale; // used for divider and single line border\<newline>'',
    ''  overlay: ColorScale; // used for modal, popover, etc.\<newline>'',
    ''  focus: ColorScale; // used for focus state outline\<newline>'',
    ''  content1: ColorScale; // used for card, modal, popover, etc.\<newline>'',
    ''  content2: ColorScale;\<newline>'',
    ''  content3: ColorScale;\<newline>'',
    ''  content4: ColorScale;\<newline>'',
    ''};\<newline>'',
    ''\<newline>'',
    ''// brand colors\<newline>'',
    ''type ThemeColors = BaseColors & {\<newline>'',
    ''  default: ColorScale;\<newline>'',
    ''  primary: ColorScale;\<newline>'',
    ''  secondary: ColorScale;\<newline>'',
    ''  success: ColorScale;\<newline>'',
    ''  warning: ColorScale;\<newline>'',
    ''  danger: ColorScale;\<newline>'',
    ''};\<newline>'',
    ''```\<newline>'',
    ''\<newline>'',
    ''### When to Use Which Colors\<newline>'',
    ''\<newline>'',
    ''*   **Base Colors (`background`, `foreground`, `content1-4`, etc.):** Use these for general layout and structural elements. For example, `bg-background` for the page background, `text-foreground` for body text, and `bg-content1` for card backgrounds.\<newline>'',
    ''*   **Theme Colors (`primary`, `secondary`, `success`, etc.):** Use these for interactive elements, branding, and to convey status. For example, `primary` for main action buttons, `danger` for error messages, and `success` for confirmation indicators.\<newline>'',
    ''\<newline>'',
    ''---\<newline>'',
    ''\<newline>'',
    ''## Colors via `color` Prop\<newline>'',
    ''\<newline>'',
    ''Hero UI uses a semantic color system. For components that support it, the easiest way to apply color is with the `color` prop.\<newline>'',
    ''\<newline>'',
    ''### Available Colors\<newline>'',
    ''\<newline>'',
    ''*   `default`\<newline>'',
    ''*   `primary`\<newline>'',
    ''*   `secondary`\<newline>'',
    ''*   `success`\<newline>'',
    ''*   `warning`\<newline>'',
    ''*   `danger`\<newline>'',
    ''\<newline>'',
    ''### How to Use\<newline>'',
    ''\<newline>'',
    ''```typescript\<newline>'',
    ''<Button color="primary">Primary Button</Button>\<newline>'',
    ''<Chip color="success">Success Chip</Chip>\<newline>'',
    ''<Spinner color="danger" />\<newline>'',
    ''```\<newline>'',
    ''\<newline>'',
    ''---\<newline>'',
    ''\<newline>'',
    ''## Colors via `className`\<newline>'',
    ''\<newline>'',
    ''For more granular control, you can use semantic color utility classes directly. These classes are theme-aware and will adapt to light/dark mode.\<newline>'',
    ''\<newline>'',
    ''### Text Color\<newline>'',
    ''- Apply primary text: `<p className="text-primary">...</p>`\<newline>'',
    ''- Shade variant: `<p className="text-primary-600">...</p>`\<newline>'',
    ''\<newline>'',
    ''### Background Color\<newline>'',
    ''- Solid background: `<div className="bg-success">...</div>`\<newline>'',
    ''- With shade: `<div className="bg-success-100">...</div>`\<newline>'',
    ''\<newline>'',
    ''### Border Color\<newline>'',
    ''- Semantic border: `<div className="border border-warning">...</div>`\<newline>'',
    ''- Shade border: `<div className="border border-warning-400">...</div>`\<newline>'',
    ''\<newline>'',
    ''### Hover/Focus States\<newline>'',
    ''- Hover background: `<button className="hover:bg-secondary-200">...</button>`\<newline>'',
    ''- Focus ring: `<input className="focus:outline-none focus:ring-2 focus:ring-primary-500" />`\<newline>'',
    ''\<newline>'',
    ''### Components & Slots\<newline>'',
    ''- Button with color prop: `<Button color="primary">Click</Button>`\<newline>'',
    ''- Slot override: `<CircularProgress classNames={{ indicator: 'stroke-danger-500' }} />`\<newline>'',
    ''\<newline>'',
    ''### Theme-Scoped Styling\<newline>'',
    ''- Apply styles based on theme: `<div className="dark:bg-default-800">...</div>`\<newline>'',
    ''\<newline>'',
    ''**Note:** Semantic colors are available as utilities like `text-*`, `bg-*`, `border-*` with shades 50'' @ [CHR 0xC3, CHR 0xA2, CHR 0xE2, CHR 0x82, CHR 0xAC, CHR 0xE2, CHR 0x80, CHR 0x9C] @ ''900. You can also use CSS variables like `var(--heroui-primary-500)`.\<newline>'',
    ''\<newline>'',
    ''---\<newline>'',
    ''\<newline>'',
    ''## Overriding Styles\<newline>'',
    ''\<newline>'',
    ''You can override the default styles of a component by passing your own class names to the `className` prop, or to the `classNames` prop for components with slots.\<newline>'',
    ''\<newline>'',
    ''### Overriding a component with `className`\<newline>'',
    ''\<newline>'',
    ''For components without slots, you can use the `className` prop to apply custom styles.\<newline>'',
    ''\<newline>'',
    ''```typescript\<newline>'',
    ''import {Button} from "@heroui/react";\<newline>'',
    ''\<newline>'',
    ''export default function App() {\<newline>'',
    ''  return (\<newline>'',
    ''    <Button\<newline>'',
    ''      disableRipple\<newline>'',
    ''      className="relative overflow-visible rounded-full hover:-translate-y-1 px-12 shadow-sm bg-background/30 after:content-['' @ [CHR 0x27, CHR 0x27] @ ''] after:absolute after:rounded-full after:inset-0 after:bg-background/40 after:z-[-1] after:transition after:duration-500! hover:after:scale-150 hover:after:opacity-0"\<newline>'',
    ''      size="lg"\<newline>'',
    ''    >\<newline>'',
    ''      Press me\<newline>'',
    ''    </Button>\<newline>'',
    ''  );\<newline>'',
    ''}\<newline>'',
    ''```\<newline>'',
    ''\<newline>'',
    ''### What is a Slot?\<newline>'',
    ''\<newline>'',
    ''A slot is a part of a component that can be styled separately using the `classNames` prop. For example, the `CircularProgress` component has slots like `track`, `indicator`, and `value` that can each be styled independently.\<newline>'',
    ''\<newline>'',
    ''You will find a `Slots` section in the documentation of each component that has slots.\<newline>'',
    ''\<newline>'',
    ''### How to Use Slots\<newline>'',
    ''\<newline>'',
    ''To style a specific slot, pass an object to the `classNames` prop where the key is the name of the slot and the value is a string of class names.\<newline>'',
    ''\<newline>'',
    ''```typescript\<newline>'',
    ''import {CircularProgress, Card, CardBody} from "@heroui/react";\<newline>'',
    ''\<newline>'',
    ''export default function App() {\<newline>'',
    ''  return (\<newline>'',
    ''    <Card className="w-[240px] h-[240px] bg-linear-to-br from-violet-500 to-fuchsia-500">\<newline>'',
    ''      <CardBody className="justify-center items-center py-0">\<newline>'',
    ''        <CircularProgress\<newline>'',
    ''          classNames={{\<newline>'',
    ''            svg: "w-36 h-36 drop-shadow-md",\<newline>'',
    ''            indicator: "stroke-white",\<newline>'',
    ''            track: "stroke-white/10",\<newline>'',
    ''            value: "text-3xl font-semibold text-white",\<newline>'',
    ''          }}\<newline>'',
    ''          value={70}\<newline>'',
    ''          strokeWidth={4}\<newline>'',
    ''          showValueLabel={true}\<newline>'',
    ''        />\<newline>'',
    ''      </CardBody>\<newline>'',
    ''    </Card>\<newline>'',
    ''  );\<newline>'',
    ''}\<newline>'',
    ''```\<newline>'',
    ''\<newline>'',
    ''---\<newline>'',
    ''\<newline>'']\<close>

text \<open>
  \<^verbatim>\<open>data.components.forEach(component => { mdxContent += ... })\<close>: the accumulator
  \<^verbatim>\<open>mdxContent\<close> is passed along and returned.
\<close>

fun forEach_component :: "ComponentRecord list \<Rightarrow> string \<Rightarrow> string" where
  "forEach_component [] mdxContent = mdxContent"
| "forEach_component (component # rest) mdxContent =
     forEach_component rest (mdxContent @ render_block component)"

definition render :: "Catalog \<Rightarrow> string" where
  "render components = forEach_component components preamble"

section \<open>The script on parsed JSON values\<close>

text \<open>
  The script does not check the shape of what \<^verbatim>\<open>JSON.parse\<close> returns: it reads
  properties of dynamically typed values and calls methods on them, and the runtime
  raises a \<^verbatim>\<open>TypeError\<close> where a value does not support the operation. This section models
  the same template on arbitrary JSON values, with every such raise as the result
  \<^const>\<open>None\<close>.
\<close>

subsection \<open>JSON values and the runtime operations the script applies to them\<close>

text \<open>
  The script never computes with a number: it tests its truthiness and prints it. A
  number is therefore held as the text that \<^verbatim>\<open>Number::toString\<close> of the runtime gives it
  (\<^verbatim>\<open>12\<close>, \<^verbatim>\<open>0.5\<close>, \<^verbatim>\<open>1e+21\<close>); positive and negative zero both print as
  \<^verbatim>\<open>0\<close>, and no other number of a JSON text does. An object is the list of its members
  in the order of the JSON text.
\<close>

datatype json =
    JNull
  | JBool bool
  | JNum string
  | JStr string
  | JArr "json list"
  | JObj "(string \<times> json) list"

text \<open>A JavaScript value met by the script: \<^verbatim>\<open>undefined\<close>, or a value built by the parser.\<close>

datatype jsval = Undefined | Val json

text \<open>
  The own property \<open>k\<close> of a parsed object. Where the JSON text repeats a key, the last
  member wins.
\<close>

definition own_property :: "(string \<times> json) list \<Rightarrow> string \<Rightarrow> jsval" where
  "own_property kvs k = (case map_of (rev kvs) k of None \<Rightarrow> Undefined | Some v \<Rightarrow> Val v)"

text \<open>
  \<^verbatim>\<open>v.k\<close> for the keys the script reads (\<^verbatim>\<open>components\<close>, \<^verbatim>\<open>name\<close>,
  \<^verbatim>\<open>description\<close>, \<^verbatim>\<open>import\<close>, \<^verbatim>\<open>props\<close>, \<^verbatim>\<open>example\<close>, \<^verbatim>\<open>type\<close>,
  \<^verbatim>\<open>default\<close>, \<^verbatim>\<open>options\<close>). Reading a property of \<^verbatim>\<open>null\<close> raises; none of these
  keys is a property of the prototypes of objects, arrays, strings, numbers or booleans,
  so on any value but an object with that member the result is \<^verbatim>\<open>undefined\<close>.
\<close>

fun get :: "json \<Rightarrow> string \<Rightarrow> jsval option" where
  "get JNull k = None"
| "get (JObj kvs) k = Some (own_property kvs k)"
| "get (JBool b) k = Some Undefined"
| "get (JNum n) k = Some Undefined"
| "get (JStr s) k = Some Undefined"
| "get (JArr xs) k = Some Undefined"

text \<open>\<^verbatim>\<open>ToBoolean\<close>, the test of the conditional operator.\<close>

fun truthy :: "jsval \<Rightarrow> bool" where
  "truthy Undefined = False"
| "truthy (Val JNull) = False"
| "truthy (Val (JBool b)) = b"
| "truthy (Val (JNum n)) = (n \<noteq> ''0'')"
| "truthy (Val (JStr s)) = (s \<noteq> [])"
| "truthy (Val (JArr xs)) = True"
| "truthy (Val (JObj kvs)) = True"

text \<open>
  \<^verbatim>\<open>ToString\<close>, applied by a template literal to each interpolated value, and
  \<^verbatim>\<open>Array.prototype.join\<close>, which it calls on an array. \<^verbatim>\<open>join\<close> prints \<^verbatim>\<open>null\<close>
  elements as the empty string. An object prints as \<^verbatim>\<open>[object Object]\<close> through
  \<^verbatim>\<open>Object.prototype.toString\<close>, unless it has a member \<^verbatim>\<open>toString\<close> of its own: no
  parsed value is callable, the inherited \<^verbatim>\<open>valueOf\<close> returns the object itself, and the
  conversion raises.
\<close>

fun to_string :: "json \<Rightarrow> string option"
  and join_json :: "string \<Rightarrow> json list \<Rightarrow> string option"
  and element_string :: "json \<Rightarrow> string option" where
  "to_string JNull = Some ''null''"
| "to_string (JBool b) = Some (if b then ''true'' else ''false'')"
| "to_string (JNum n) = Some n"
| "to_string (JStr s) = Some s"
| "to_string (JArr xs) = join_json '','' xs"
| "to_string (JObj kvs) =
     (if own_property kvs ''toString'' = Undefined then Some ''[object Object]'' else None)"
| "join_json sep [] = Some []"
| "join_json sep [x] = element_string x"
| "join_json sep (x # y # ys) =
     do { s \<leftarrow> element_string x; r \<leftarrow> join_json sep (y # ys); Some (s @ sep @ r) }"
| "element_string x = (if x = JNull then Some [] else to_string x)"

text \<open>\<^verbatim>\<open>${e}\<close> in a template literal.\<close>

fun interpolate :: "jsval \<Rightarrow> string option" where
  "interpolate Undefined = Some ''undefined''"
| "interpolate (Val v) = to_string v"

subsection \<open>The row, the block and the document\<close>

text \<open>
  \<^verbatim>\<open>prop.type.replace(...)\<close>: only a string has a callable \<^verbatim>\<open>replace\<close>.
\<close>

fun type_replace :: "jsval \<Rightarrow> string option" where
  "type_replace (Val (JStr s)) = Some (replace_pipe s)"
| "type_replace v = None"

text \<open>
  \<^verbatim>\<open>prop.options.join('`, `')\<close>, evaluated when \<^verbatim>\<open>prop.options\<close> is truthy: only an
  array has a callable \<^verbatim>\<open>join\<close>.
\<close>

fun options_join :: "jsval \<Rightarrow> string option" where
  "options_join (Val (JArr xs)) = join_json ''`, `'' xs"
| "options_join v = None"

definition render_row_json :: "json \<Rightarrow> string option" where
  "render_row_json prop =
     do {
       name \<leftarrow> get prop ''name'';
       name_text \<leftarrow> interpolate name;
       type \<leftarrow> get prop ''type'';
       type_text \<leftarrow> type_replace type;
       default \<leftarrow> get prop ''default'';
       default_text \<leftarrow>
         (if truthy default
          then do { d \<leftarrow> interpolate default; Some (''`'' @ d @ ''`'') }
          else Some []);
       options \<leftarrow> get prop ''options'';
       options_text \<leftarrow>
         (if truthy options
          then do { os \<leftarrow> options_join options; Some (''`'' @ os @ ''`'') }
          else Some []);
       description \<leftarrow> get prop ''description'';
       description_text \<leftarrow> interpolate description;
       Some (''| `'' @ name_text @ ''` | `'' @ type_text @ ''` | '' @ default_text
             @ '' | '' @ options_text @ '' | '' @ description_text @ '' |'')
     }"

text \<open>
  \<^verbatim>\<open>component.props.map(prop => ...)\<close>: only an array has a callable \<^verbatim>\<open>map\<close>; the rows
  are computed in order and the first raise ends the call.
\<close>

fun props_map :: "jsval \<Rightarrow> string list option" where
  "props_map (Val (JArr props)) = those (map render_row_json props)"
| "props_map v = None"

definition render_block_json :: "json \<Rightarrow> string option" where
  "render_block_json component =
     do {
       name \<leftarrow> get component ''name'';
       name_text \<leftarrow> interpolate name;
       description \<leftarrow> get component ''description'';
       description_text \<leftarrow> interpolate description;
       import \<leftarrow> get component ''import'';
       import_text \<leftarrow> interpolate import;
       props \<leftarrow> get component ''props'';
       rows \<leftarrow> props_map props;
       example \<leftarrow> get component ''example'';
       example_text \<leftarrow> interpolate example;
       Some (''\<newline>'' @
             ''## '' @ name_text @ ''\<newline>'' @
             ''\<newline>'' @
             ''<details>\<newline>'' @
             ''<summary>View details for '' @ name_text @ ''</summary>\<newline>'' @
             ''\<newline>'' @
             ''**Description:** '' @ description_text @ ''\<newline>'' @
             ''\<newline>'' @
             ''**Import:**\<newline>'' @
             ''```typescript\<newline>'' @
             import_text @ ''\<newline>'' @
             ''```\<newline>'' @
             ''\<newline>'' @
             ''**Props:**\<newline>'' @
             ''\<newline>'' @
             ''| Name | Type | Default | Options | Description |\<newline>'' @
             ''| --- | --- | --- | --- | --- |\<newline>'' @
             join ''\<newline>'' rows @ ''\<newline>'' @
             ''\<newline>'' @
             ''**Example:**\<newline>'' @
             ''```typescript\<newline>'' @
             example_text @ ''\<newline>'' @
             ''```\<newline>'' @
             ''\<newline>'' @
             ''</details>\<newline>'' @
             ''---\<newline>'')
     }"

text \<open>
  \<^verbatim>\<open>data.components.forEach(...)\<close>: the callback appends to \<^verbatim>\<open>mdxContent\<close>; a raise in
  the callback ends the script.
\<close>

fun forEach_json :: "json list \<Rightarrow> string \<Rightarrow> string option" where
  "forEach_json [] mdxContent = Some mdxContent"
| "forEach_json (component # rest) mdxContent =
     do { block \<leftarrow> render_block_json component; forEach_json rest (mdxContent @ block) }"

text \<open>Only an array has a callable \<^verbatim>\<open>forEach\<close>.\<close>

fun components_forEach :: "jsval \<Rightarrow> string option" where
  "components_forEach (Val (JArr components)) = forEach_json components preamble"
| "components_forEach v = None"

definition render_json :: "json \<Rightarrow> string option" where
  "render_json data = do { components \<leftarrow> get data ''components''; components_forEach components }"

subsection \<open>The script\<close>

text \<open>
  The script reads \<^verbatim>\<open>full.json\<close>, parses it, renders, writes \<^verbatim>\<open>heroui-prompt-guide.md\<close> and
  logs one line. The world it runs in is the file system and the console.
  \<^verbatim>\<open>fs.readFileSync\<close> raises when the file is missing, \<^verbatim>\<open>fs.writeFileSync\<close> when the
  destination is not writable; a written file is replaced as a whole.
  \<^verbatim>\<open>JSON.parse\<close> belongs to the runtime and is a parameter: a function from the text to
  the parsed value, or to \<^const>\<open>None\<close> where it raises.
\<close>

datatype error = ENOENT | SyntaxError | TypeError | EACCES

record world =
  files :: "string \<rightharpoonup> string"
  writable :: "string \<Rightarrow> bool"
  console :: "string list"

definition run_script :: "(string \<Rightarrow> json option) \<Rightarrow> world \<Rightarrow> error + world" where
  "run_script JSON_parse w =
     (case files w ''full.json'' of
        None \<Rightarrow> Inl ENOENT
      | Some text \<Rightarrow>
          (case JSON_parse text of
             None \<Rightarrow> Inl SyntaxError
           | Some data \<Rightarrow>
               (case render_json data of
                  None \<Rightarrow> Inl TypeError
                | Some mdxContent \<Rightarrow>
                    if writable w ''heroui-prompt-guide.md''
                    then Inr (w\<lparr>files := (files w)(''heroui-prompt-guide.md'' \<mapsto> mdxContent),
                               console := console w @ [''Successfully created heroui-prompt-guide.md'']\<rparr>)
                    else Inl EACCES)))"

section \<open>Structurally valid catalogs\<close>

text \<open>
  The data model of the specification as a shape of parsed JSON values: a catalog is an
  object whose member \<^verbatim>\<open>components\<close> is an array of component objects; a component has
  the string members \<^verbatim>\<open>name\<close>, \<^verbatim>\<open>description\<close>, \<^verbatim>\<open>import\<close> and \<^verbatim>\<open>example\<close> and
  an array \<^verbatim>\<open>props\<close> of property objects; a property has the string members
  \<^verbatim>\<open>name\<close>, \<^verbatim>\<open>type\<close> and \<^verbatim>\<open>description\<close>, an optional literal \<^verbatim>\<open>default\<close> and an
  optional array of literals \<^verbatim>\<open>options\<close>. A literal is a string, a number or a boolean.
  Further members are ignored.
\<close>

fun is_string :: "jsval \<Rightarrow> bool" where
  "is_string (Val (JStr s)) = True"
| "is_string v = False"

fun is_literal :: "json \<Rightarrow> bool" where
  "is_literal (JStr s) = True"
| "is_literal (JNum n) = True"
| "is_literal (JBool b) = True"
| "is_literal v = False"

fun optional_literal :: "jsval \<Rightarrow> bool" where
  "optional_literal Undefined = True"
| "optional_literal (Val v) = is_literal v"

fun optional_literals :: "jsval \<Rightarrow> bool" where
  "optional_literals Undefined = True"
| "optional_literals (Val (JArr xs)) = list_all is_literal xs"
| "optional_literals v = False"

fun valid_property :: "json \<Rightarrow> bool" where
  "valid_property (JObj kvs) =
     (is_string (own_property kvs ''name'') \<and> is_string (own_property kvs ''type'')
      \<and> optional_literal (own_property kvs ''default'')
      \<and> optional_literals (own_property kvs ''options'')
      \<and> is_string (own_property kvs ''description''))"
| "valid_property v = False"

fun valid_props :: "jsval \<Rightarrow> bool" where
  "valid_props (Val (JArr props)) = list_all valid_property props"
| "valid_props v = False"

fun valid_component :: "json \<Rightarrow> bool" where
  "valid_component (JObj kvs) =
     (is_string (own_property kvs ''name'') \<and> is_string (own_property kvs ''description'')
      \<and> is_string (own_property kvs ''import'') \<and> valid_props (own_property kvs ''props'')
      \<and> is_string (own_property kvs ''example''))"
| "valid_component v = False"

fun valid_components :: "jsval \<Rightarrow> bool" where
  "valid_components (Val (JArr components)) = list_all valid_component components"
| "valid_components v = False"

fun valid_catalog :: "json \<Rightarrow> bool" where
  "valid_catalog (JObj kvs) = valid_components (own_property kvs ''components'')"
| "valid_catalog v = False"

text \<open>
  A valid catalog whose literals are all strings is read as a catalog of the typed data
  model.
\<close>

fun as_string :: "json \<Rightarrow> string option" where
  "as_string (JStr s) = Some s"
| "as_string v = None"

fun required_string :: "jsval \<Rightarrow> string option" where
  "required_string (Val (JStr s)) = Some s"
| "required_string v = None"

fun optional_string :: "jsval \<Rightarrow> string option option" where
  "optional_string Undefined = Some None"
| "optional_string (Val (JStr s)) = Some (Some s)"
| "optional_string v = None"

fun optional_strings :: "jsval \<Rightarrow> string list option option" where
  "optional_strings Undefined = Some None"
| "optional_strings (Val (JArr xs)) = map_option Some (those (map as_string xs))"
| "optional_strings v = None"

fun decode_property :: "json \<Rightarrow> PropertyRecord option" where
  "decode_property (JObj kvs) =
     do {
       name \<leftarrow> required_string (own_property kvs ''name'');
       type \<leftarrow> required_string (own_property kvs ''type'');
       default \<leftarrow> optional_string (own_property kvs ''default'');
       options \<leftarrow> optional_strings (own_property kvs ''options'');
       description \<leftarrow> required_string (own_property kvs ''description'');
       Some \<lparr>prop_name = name, prop_type = type, prop_default = default,
             prop_options = options, prop_description = description\<rparr>
     }"
| "decode_property v = None"

fun decode_props :: "jsval \<Rightarrow> PropertyRecord list option" where
  "decode_props (Val (JArr props)) = those (map decode_property props)"
| "decode_props v = None"

fun decode_component :: "json \<Rightarrow> ComponentRecord option" where
  "decode_component (JObj kvs) =
     do {
       name \<leftarrow> required_string (own_property kvs ''name'');
       description \<leftarrow> required_string (own_property kvs ''description'');
       import \<leftarrow> required_string (own_property kvs ''import'');
       props \<leftarrow> decode_props (own_property kvs ''props'');
       example \<leftarrow> required_string (own_property kvs ''example'');
       Some \<lparr>comp_name = name, comp_description = description, comp_import = import,
             comp_props = props, comp_example = example\<rparr>
     }"
| "decode_component v = None"

fun decode_components :: "jsval \<Rightarrow> Catalog option" where
  "decode_components (Val (JArr components)) = those (map decode_component components)"
| "decode_components v = None"

fun decode_catalog :: "json \<Rightarrow> Catalog option" where
  "decode_catalog (JObj kvs) = decode_components (own_property kvs ''components'')"
| "decode_catalog v = None"

section \<open>The catalog a parsed value holds\<close>

text \<open>
  The catalog part of a parsed value keeps, of every object, the members the data model
  names and drops every other member: of the catalog object the member
  \<^verbatim>\<open>components\<close>, of a component \<^verbatim>\<open>name\<close>, \<^verbatim>\<open>description\<close>, \<^verbatim>\<open>import\<close>,
  \<^verbatim>\<open>props\<close> and \<^verbatim>\<open>example\<close>, of a property \<^verbatim>\<open>name\<close>, \<^verbatim>\<open>type\<close>, \<^verbatim>\<open>default\<close>,
  \<^verbatim>\<open>options\<close> and \<^verbatim>\<open>description\<close>. A kept member has the value the object gives the
  key (the last one where the key is repeated) and stands at a fixed place. A value that
  is not an object is kept as it is.
\<close>

definition kept_member :: "(string \<times> json) list \<Rightarrow> string \<Rightarrow> (json \<Rightarrow> json) \<Rightarrow> (string \<times> json) list" where
  "kept_member kvs k f = (case own_property kvs k of Undefined \<Rightarrow> [] | Val v \<Rightarrow> [(k, f v)])"

fun property_part :: "json \<Rightarrow> json" where
  "property_part (JObj kvs) =
     JObj (kept_member kvs ''name'' id @ kept_member kvs ''type'' id @ kept_member kvs ''default'' id
           @ kept_member kvs ''options'' id @ kept_member kvs ''description'' id)"
| "property_part v = v"

fun props_part :: "json \<Rightarrow> json" where
  "props_part (JArr props) = JArr (map property_part props)"
| "props_part v = v"

fun component_part :: "json \<Rightarrow> json" where
  "component_part (JObj kvs) =
     JObj (kept_member kvs ''name'' id @ kept_member kvs ''description'' id @ kept_member kvs ''import'' id
           @ kept_member kvs ''props'' props_part @ kept_member kvs ''example'' id)"
| "component_part v = v"

fun components_part :: "json \<Rightarrow> json" where
  "components_part (JArr components) = JArr (map component_part components)"
| "components_part v = v"

fun catalog_part :: "json \<Rightarrow> json" where
  "catalog_part (JObj kvs) = JObj (kept_member kvs ''components'' components_part)"
| "catalog_part v = v"

text \<open>The canonical value of a catalog of the typed data model.\<close>

definition encode_property :: "PropertyRecord \<Rightarrow> json" where
  "encode_property p =
     JObj ([(''name'', JStr (prop_name p)), (''type'', JStr (prop_type p))]
           @ (case prop_default p of None \<Rightarrow> [] | Some d \<Rightarrow> [(''default'', JStr d)])
           @ (case prop_options p of None \<Rightarrow> [] | Some os \<Rightarrow> [(''options'', JArr (map JStr os))])
           @ [(''description'', JStr (prop_description p))])"

definition encode_component :: "ComponentRecord \<Rightarrow> json" where
  "encode_component c =
     JObj [(''name'', JStr (comp_name c)), (''description'', JStr (comp_description c)),
           (''import'', JStr (comp_import c)),
           (''props'', JArr (map encode_property (comp_props c))),
           (''example'', JStr (comp_example c))]"

definition encode_catalog :: "Catalog \<Rightarrow> json" where
  "encode_catalog catalog = JObj [(''components'', JArr (map encode_component catalog))]"

section \<open>Reading a rendered row as a table row\<close>

text \<open>
  In the rendered table a row is cut into cells at every \<^verbatim>\<open>|\<close> that is not escaped, and a
  \<^verbatim>\<open>|\<close> is escaped when a backslash stands immediately before it. \<^term>\<open>split_pipes\<close>
  scans the row from the left and cuts it at the unescaped delimiters;
  \<^term>\<open>push s xs\<close> puts \<open>s\<close> in front of the first piece of \<open>xs\<close>.
\<close>

fun push :: "string \<Rightarrow> string list \<Rightarrow> string list" where
  "push s [] = [s]"
| "push s (x # xs) = (s @ x) # xs"

fun split_pipes :: "string \<Rightarrow> string list" where
  "split_pipes [] = [[]]"
| "split_pipes [c] = (if c = pipe then [[], []] else [[c]])"
| "split_pipes (c # d # cs) =
     (if c = backslash \<and> d = pipe then push [c, d] (split_pipes cs)
      else if c = pipe then [] # split_pipes (d # cs)
      else push [c] (split_pipes (d # cs)))"

text \<open>
  A row starts and ends with a delimiter; its logical columns are the pieces between the
  first and the last one.
\<close>

definition row_cells :: "string \<Rightarrow> string list" where
  "row_cells row = butlast (tl (split_pipes row))"

text \<open>A text holds no unescaped delimiter when the scan leaves it in one piece.\<close>

definition no_unescaped_pipe :: "string \<Rightarrow> bool" where
  "no_unescaped_pipe s \<longleftrightarrow> split_pipes s = [s]"

text \<open>The row template puts one space on each side of a cell.\<close>

definition pad :: "string \<Rightarrow> string" where
  "pad s = '' '' @ s @ '' ''"

text \<open>
  The escaping of the type column in the words of the specification: every occurrence
  of the delimiter is replaced by the escaped form.
\<close>

definition escape_spec :: "string \<Rightarrow> string" where
  "escape_spec t = concat (map (\<lambda>c. if c = pipe then [backslash, pipe] else [c]) t)"

text \<open>A literal between inline-code markers.\<close>

definition code_span :: "string \<Rightarrow> string" where
  "code_span s = ''`'' @ s @ ''`''"

section \<open>Example catalogs\<close>

text \<open>The example scenario of the specification: the property \<^verbatim>\<open>color\<close> of \<^verbatim>\<open>Badge\<close>.\<close>

definition badge_color :: PropertyRecord where
  "badge_color =
     \<lparr>prop_name = ''color'', prop_type = ''default | primary'',
      prop_default = Some ''default'', prop_options = Some [''default'', ''primary''],
      prop_description = ''d''\<rparr>"

definition badge :: ComponentRecord where
  "badge =
     \<lparr>comp_name = ''Badge'', comp_description = ''x'', comp_import = ''import {Badge}...'',
      comp_props = [badge_color], comp_example = ''<Badge/>''\<rparr>"

definition badge_json :: json where
  "badge_json =
     JObj [(''components'',
       JArr [JObj
         [(''name'', JStr ''Badge''),
          (''description'', JStr ''x''),
          (''import'', JStr ''import {Badge}...''),
          (''props'',
            JArr [JObj
              [(''name'', JStr ''color''),
               (''type'', JStr ''default | primary''),
               (''default'', JStr ''default''),
               (''options'', JArr [JStr ''default'', JStr ''primary'']),
               (''description'', JStr ''d'')]]),
          (''example'', JStr ''<Badge/>'')]])]"

text \<open>
  The same catalog in another parsed value: further members, another order of the
  members, and a repeated key.
\<close>

definition badge_json_annotated :: json where
  "badge_json_annotated =
     JObj [(''version'', JNum ''2''),
       (''components'',
       JArr [JObj
         [(''name'', JStr ''Chip''),
          (''example'', JStr ''<Badge/>''),
          (''props'',
            JArr [JObj
              [(''description'', JStr ''d''),
               (''required'', JBool False),
               (''options'', JArr [JStr ''default'', JStr ''primary'']),
               (''default'', JStr ''default''),
               (''type'', JStr ''default | primary''),
               (''name'', JStr ''color'')]]),
          (''import'', JStr ''import {Badge}...''),
          (''category'', JStr ''data display''),
          (''description'', JStr ''x''),
          (''name'', JStr ''Badge'')]])]"

text \<open>A property whose description holds a delimiter, as its type does.\<close>

definition piped_description :: PropertyRecord where
  "piped_description =
     \<lparr>prop_name = ''align'', prop_type = ''left | right'',
      prop_default = None, prop_options = None,
      prop_description = ''left | right edge''\<rparr>"

text \<open>A property whose default is present and is the empty string.\<close>

definition empty_default :: PropertyRecord where
  "empty_default =
     \<lparr>prop_name = ''value'', prop_type = ''string'',
      prop_default = Some [], prop_options = None,
      prop_description = ''The current value.''\<rparr>"

text \<open>A property with neither \<^verbatim>\<open>default\<close> nor \<^verbatim>\<open>options\<close>.\<close>

definition bare_property :: PropertyRecord where
  "bare_property =
     \<lparr>prop_name = ''title'', prop_type = ''ReactNode'',
      prop_default = None, prop_options = None,
      prop_description = ''The alert title''\<rparr>"

text \<open>A property whose \<^verbatim>\<open>options\<close> is present and is the empty array.\<close>

definition no_options :: PropertyRecord where
  "no_options =
     \<lparr>prop_name = ''size'', prop_type = ''string'',
      prop_default = None, prop_options = Some [],
      prop_description = ''The size.''\<rparr>"

text \<open>A component without properties.\<close>

definition spacer :: ComponentRecord where
  \<open>spacer =
     \<lparr>comp_name = ''Spacer'', comp_description = ''Adds space.'',
      comp_import = ''import {Spacer} from "@heroui/react";'',
      comp_props = [], comp_example = ''<Spacer/>''\<rparr>\<close>

text \<open>A component with three properties.\<close>

definition alert :: ComponentRecord where
  "alert =
     \<lparr>comp_name = ''Alert'', comp_description = ''Shows a message.'',
      comp_import = ''import {Alert}...'',
      comp_props = [bare_property, badge_color, no_options], comp_example = ''<Alert/>''\<rparr>"

text \<open>
  The JSON text of the example scenario, a parser that gives this text its value, and a
  world whose catalog file holds it.
\<close>

definition badge_text :: string where
  \<open>badge_text =
     ''{"components":[{"name":"Badge","description":"x","import":"import {Badge}...",'' @
     ''"props":[{"name":"color","type":"default | primary","default":"default",'' @
     ''"options":["default","primary"],"description":"d"}],"example":"<Badge/>"}]}''\<close>

definition badge_parse :: "string \<Rightarrow> json option" where
  "badge_parse text = (if text = badge_text then Some badge_json else None)"

definition badge_world :: world where
  "badge_world =
     \<lparr>files = [''full.json'' \<mapsto> badge_text], writable = (\<lambda>path. True), console = []\<rparr>"

section \<open>Properties of the string operations\<close>

lemma pipe_neq_backslash [simp]: "pipe \<noteq> backslash" "backslash \<noteq> pipe"
  by (simp_all add: pipe_def backslash_def)

lemma replace_pipe_append: "replace_pipe (a @ b) = replace_pipe a @ replace_pipe b"
  by (induction a) simp_all

lemma replace_pipe_spec: "replace_pipe t = escape_spec t"
  by (induction t) (simp_all add: escape_spec_def)

lemma length_replace_pipe:
  "length (replace_pipe t) = length t + length (filter (\<lambda>c. c = pipe) t)"
  by (induction t) simp_all

lemma pipes_replace_pipe:
  "filter (\<lambda>c. c = pipe) (replace_pipe t) = filter (\<lambda>c. c = pipe) t"
  by (induction t) simp_all

lemma replace_pipe_not_pipe: "replace_pipe t \<noteq> pipe # u"
  by (cases t) auto

lemma join_code_spans:
  "os \<noteq> [] \<Longrightarrow> ''`'' @ join ''`, `'' os @ ''`'' = join '', '' (map code_span os)"
proof (induction os)
  case Nil
  then show ?case by simp
next
  case step: (Cons x xs)
  show ?case
  proof (cases xs)
    case Nil
    then show ?thesis by (simp add: code_span_def)
  next
    case (Cons y ys)
    then have "xs \<noteq> []" by simp
    then have "join '', '' (map code_span xs) = ''`'' @ join ''`, `'' xs @ ''`''"
      using step.IH by simp
    then have "join '', '' (map code_span (x # xs)) = code_span x @ '', '' @ ''`'' @ join ''`, `'' xs @ ''`''"
      using Cons by simp
    also have "\<dots> = ''`'' @ join ''`, `'' (x # xs) @ ''`''"
      using Cons by (simp add: code_span_def)
    finally show ?thesis by simp
  qed
qed

lemma join_Cons: "join sep (y # zs) = y @ concat (map (\<lambda>z. sep @ z) zs)"
  by (induction zs arbitrary: y) simp_all

text \<open>
  In a joined text every element before a given one is followed by the separator and
  every element after it is preceded by the separator.
\<close>

lemma join_append_Cons:
  "join sep (xs @ y # zs) =
     concat (map (\<lambda>x. x @ sep) xs) @ y @ concat (map (\<lambda>z. sep @ z) zs)"
proof (induction xs)
  case Nil
  show ?case by (simp add: join_Cons)
next
  case (Cons x xs)
  have "join sep (x # xs @ y # zs) = x @ sep @ join sep (xs @ y # zs)"
    by (cases xs) simp_all
  with Cons show ?case by simp
qed

section \<open>Properties of the table reading\<close>

lemma push_nonempty [simp]: "push s xs \<noteq> []"
  by (cases xs) simp_all

lemma split_pipes_nonempty: "split_pipes s \<noteq> []"
  by (induction s rule: split_pipes.induct) simp_all

lemma push_Nil: "xs \<noteq> [] \<Longrightarrow> push [] xs = xs"
  by (cases xs) simp_all

lemma push_push: "push a (push b xs) = push (a @ b) xs"
  by (cases xs) simp_all

lemma push_single: "push a [b] = [a @ b]"
  by simp

lemma push_append: "xs \<noteq> [] \<Longrightarrow> push a (xs @ ys) = push a xs @ ys"
  by (cases xs) simp_all

lemma push_eq_single: "xs \<noteq> [] \<Longrightarrow> push a xs = [a @ b] \<longleftrightarrow> xs = [b]"
  by (cases xs) auto

lemma split_pipes_pipe: "split_pipes (pipe # rest) = [] # split_pipes rest"
  by (cases rest) simp_all

text \<open>
  A text without unescaped delimiter stays in one piece in front of any continuation,
  unless it ends in a backslash that would escape a delimiter opening the continuation.
\<close>

lemma split_pipes_append:
  "no_unescaped_pipe s \<Longrightarrow>
   s = [] \<or> last s \<noteq> backslash \<or> rest = [] \<or> hd rest \<noteq> pipe \<Longrightarrow>
   split_pipes (s @ rest) = push s (split_pipes rest)"
proof (induction s rule: split_pipes.induct)
  case 1
  then show ?case by (simp add: push_Nil split_pipes_nonempty)
next
  case (2 c)
  then show ?case
    by (cases rest) (auto simp: no_unescaped_pipe_def split: if_splits)
next
  case (3 c d cs)
  show ?case
  proof (cases "c = backslash \<and> d = pipe")
    case True
    from "3.prems"(1) True have "push [c, d] (split_pipes cs) = [[c, d] @ cs]"
      by (simp add: no_unescaped_pipe_def)
    then have cs: "no_unescaped_pipe cs"
      by (simp only: push_eq_single [OF split_pipes_nonempty] no_unescaped_pipe_def)
    have "cs = [] \<or> last cs \<noteq> backslash \<or> rest = [] \<or> hd rest \<noteq> pipe"
      using "3.prems"(2) by auto
    with "3.IH"(1) [OF True cs] have "split_pipes (cs @ rest) = push cs (split_pipes rest)"
      by blast
    with True show ?thesis by (simp add: push_push)
  next
    case False
    have np: "c \<noteq> pipe"
    proof
      assume "c = pipe"
      with "3.prems"(1) show False by (simp add: no_unescaped_pipe_def)
    qed
    from "3.prems"(1) False np have "push [c] (split_pipes (d # cs)) = [[c] @ (d # cs)]"
      by (simp add: no_unescaped_pipe_def)
    then have dcs: "no_unescaped_pipe (d # cs)"
      by (simp only: push_eq_single [OF split_pipes_nonempty] no_unescaped_pipe_def)
    have "d # cs = [] \<or> last (d # cs) \<noteq> backslash \<or> rest = [] \<or> hd rest \<noteq> pipe"
      using "3.prems"(2) by auto
    with "3.IH"(3) [OF False np dcs]
    have "split_pipes ((d # cs) @ rest) = push (d # cs) (split_pipes rest)"
      by blast
    with False np show ?thesis by (auto simp: push_push)
  qed
qed

lemma split_pipes_cell:
  "no_unescaped_pipe s \<Longrightarrow> s = [] \<or> last s \<noteq> backslash \<Longrightarrow>
   split_pipes (s @ pipe # rest) = s # split_pipes rest"
  using split_pipes_append [of s "pipe # rest"] by (simp add: split_pipes_pipe)

text \<open>A delimiter closing the row adds one empty piece, whatever stands before it.\<close>

lemma split_pipes_closing:
  "s = [] \<or> last s \<noteq> backslash \<Longrightarrow> split_pipes (s @ [pipe]) = split_pipes s @ [[]]"
proof (induction s rule: split_pipes.induct)
  case 1
  show ?case by simp
next
  case (2 c)
  then show ?case by simp
next
  case (3 c d cs)
  show ?case
  proof (cases "c = backslash \<and> d = pipe")
    case True
    have "cs = [] \<or> last cs \<noteq> backslash"
      using "3.prems" by auto
    with "3.IH"(1) [OF True] have "split_pipes (cs @ [pipe]) = split_pipes cs @ [[]]"
      by blast
    with True show ?thesis by (simp add: push_append split_pipes_nonempty)
  next
    case False
    have side: "d # cs = [] \<or> last (d # cs) \<noteq> backslash"
      using "3.prems" by auto
    show ?thesis
    proof (cases "c = pipe")
      case True
      with "3.IH"(2) [OF False True side] False show ?thesis by auto
    next
      case np: False
      with "3.IH"(3) [OF False np side] False show ?thesis
        by (auto simp: push_append split_pipes_nonempty)
    qed
  qed
qed

lemma no_unescaped_pipe_Nil: "no_unescaped_pipe []"
  by (simp add: no_unescaped_pipe_def)

lemma no_pipe_no_unescaped_pipe: "pipe \<notin> set s \<Longrightarrow> no_unescaped_pipe s"
  unfolding no_unescaped_pipe_def
  by (induction s rule: split_pipes.induct) auto

lemma no_unescaped_pipe_append:
  "no_unescaped_pipe a \<Longrightarrow> no_unescaped_pipe b \<Longrightarrow>
   a = [] \<or> last a \<noteq> backslash \<or> b = [] \<or> hd b \<noteq> pipe \<Longrightarrow>
   no_unescaped_pipe (a @ b)"
  using split_pipes_append [of a b] by (simp add: no_unescaped_pipe_def push_single)

text \<open>What the script writes for a type never holds an unescaped delimiter.\<close>

lemma no_unescaped_pipe_replace_pipe: "no_unescaped_pipe (replace_pipe t)"
proof (induction t)
  case Nil
  show ?case by (simp add: no_unescaped_pipe_def)
next
  case (Cons c cs)
  show ?case
  proof (cases "c = pipe")
    case True
    with Cons show ?thesis by (simp add: no_unescaped_pipe_def push_single)
  next
    case False
    show ?thesis
    proof (cases "replace_pipe cs")
      case Nil
      with False show ?thesis by (simp add: no_unescaped_pipe_def)
    next
      case (Cons d ds)
      with replace_pipe_not_pipe [of cs ds] have "d \<noteq> pipe" by auto
      with False Cons Cons.IH show ?thesis by (simp add: no_unescaped_pipe_def push_single)
    qed
  qed
qed

lemma backtick_neq [simp]:
  "CHR ''`'' \<noteq> pipe" "CHR ''`'' \<noteq> backslash" "pipe \<noteq> CHR ''`''" "backslash \<noteq> CHR ''`''"
  by (simp_all add: pipe_def backslash_def)

lemma space_neq [simp]:
  "CHR '' '' \<noteq> pipe" "CHR '' '' \<noteq> backslash" "pipe \<noteq> CHR '' ''" "backslash \<noteq> CHR '' ''"
  by (simp_all add: pipe_def backslash_def)

lemma no_unescaped_pipe_code_span:
  "no_unescaped_pipe s \<Longrightarrow> no_unescaped_pipe (''`'' @ s @ ''`'')"
proof -
  assume s: "no_unescaped_pipe s"
  have tick: "no_unescaped_pipe ''`''"
    by (rule no_pipe_no_unescaped_pipe) simp
  have "no_unescaped_pipe (s @ ''`'')"
    by (rule no_unescaped_pipe_append [OF s tick]) simp
  then show ?thesis
    by (rule no_unescaped_pipe_append [OF tick]) simp
qed

lemma no_unescaped_pipe_pad:
  "no_unescaped_pipe s \<Longrightarrow> no_unescaped_pipe (pad s)"
proof -
  assume s: "no_unescaped_pipe s"
  have sp: "no_unescaped_pipe '' ''"
    by (rule no_pipe_no_unescaped_pipe) simp
  have "no_unescaped_pipe (s @ '' '')"
    by (rule no_unescaped_pipe_append [OF s sp]) simp
  then show ?thesis
    unfolding pad_def by (rule no_unescaped_pipe_append [OF sp]) simp
qed

lemma last_pad [simp]: "last (pad s) = CHR '' ''" "pad s \<noteq> []"
  by (simp_all add: pad_def)

lemma no_unescaped_pipe_join:
  "\<forall>opt\<in>set os. no_unescaped_pipe opt \<Longrightarrow> no_unescaped_pipe (join ''`, `'' os)"
proof (induction "''`, `''" os rule: join.induct)
  case 1
  show ?case by (simp add: no_unescaped_pipe_Nil)
next
  case (2 x)
  then show ?case by simp
next
  case (3 x y ys)
  have sep: "no_unescaped_pipe ''`, `''"
    by (rule no_pipe_no_unescaped_pipe) (simp add: pipe_def)
  have rest: "no_unescaped_pipe (join ''`, `'' (y # ys))"
    using 3 by simp
  have tail: "no_unescaped_pipe (''`, `'' @ join ''`, `'' (y # ys))"
    by (rule no_unescaped_pipe_append [OF sep rest]) simp
  have x: "no_unescaped_pipe x"
    using "3.prems" by simp
  have "no_unescaped_pipe (x @ ''`, `'' @ join ''`, `'' (y # ys))"
    by (rule no_unescaped_pipe_append [OF x tail]) simp
  then show ?case by simp
qed

section \<open>Reading a rendered row\<close>

lemma render_row_shape:
  "render_row prop =
     pipe # pad (name_cell prop) @ pipe # pad (type_cell prop) @ pipe # pad (default_cell prop)
     @ pipe # pad (options_cell prop) @ pipe # pad (prop_description prop) @ [pipe]"
  by (simp add: render_row_def pad_def pipe_def)

lemma no_unescaped_pipe_ticks:
  "no_unescaped_pipe s \<Longrightarrow> no_unescaped_pipe (CHR ''`'' # s @ [CHR ''`''])"
  using no_unescaped_pipe_code_span [of s] by simp

lemma no_unescaped_pipe_name_cell:
  "no_unescaped_pipe (prop_name prop) \<Longrightarrow> no_unescaped_pipe (name_cell prop)"
  unfolding name_cell_def by (rule no_unescaped_pipe_code_span)

lemma no_unescaped_pipe_type_cell: "no_unescaped_pipe (type_cell prop)"
  unfolding type_cell_def by (rule no_unescaped_pipe_code_span) (rule no_unescaped_pipe_replace_pipe)

lemma no_unescaped_pipe_default_cell:
  "\<forall>d. prop_default prop = Some d \<longrightarrow> no_unescaped_pipe d \<Longrightarrow>
   no_unescaped_pipe (default_cell prop)"
  by (auto simp: default_cell_def no_unescaped_pipe_Nil split: option.splits
      intro: no_unescaped_pipe_ticks)

lemma no_unescaped_pipe_options_cell:
  "\<forall>os. prop_options prop = Some os \<longrightarrow> (\<forall>opt\<in>set os. no_unescaped_pipe opt) \<Longrightarrow>
   no_unescaped_pipe (options_cell prop)"
  by (auto simp: options_cell_def no_unescaped_pipe_Nil split: option.splits
      intro!: no_unescaped_pipe_ticks no_unescaped_pipe_join [simplified])

text \<open>
  When the name, the default and the options hold no unescaped delimiter, the row reads
  as the four cells before the description, followed by the pieces of the description.
\<close>

lemma row_cells_render_row:
  assumes "no_unescaped_pipe (prop_name prop)"
    and "\<forall>d. prop_default prop = Some d \<longrightarrow> no_unescaped_pipe d"
    and "\<forall>os. prop_options prop = Some os \<longrightarrow> (\<forall>opt\<in>set os. no_unescaped_pipe opt)"
  shows "row_cells (render_row prop) =
     [pad (name_cell prop), pad (type_cell prop), pad (default_cell prop), pad (options_cell prop)]
     @ split_pipes (pad (prop_description prop))"
proof -
  have c1: "no_unescaped_pipe (pad (name_cell prop))"
    by (rule no_unescaped_pipe_pad) (rule no_unescaped_pipe_name_cell [OF assms(1)])
  have c2: "no_unescaped_pipe (pad (type_cell prop))"
    by (rule no_unescaped_pipe_pad) (rule no_unescaped_pipe_type_cell)
  have c3: "no_unescaped_pipe (pad (default_cell prop))"
    by (rule no_unescaped_pipe_pad) (rule no_unescaped_pipe_default_cell [OF assms(2)])
  have c4: "no_unescaped_pipe (pad (options_cell prop))"
    by (rule no_unescaped_pipe_pad) (rule no_unescaped_pipe_options_cell [OF assms(3)])
  have "split_pipes (render_row prop) =
      [] # pad (name_cell prop) # pad (type_cell prop) # pad (default_cell prop)
      # pad (options_cell prop) # split_pipes (pad (prop_description prop)) @ [[]]"
    by (simp add: render_row_shape split_pipes_pipe split_pipes_cell c1 c2 c3 c4
        split_pipes_closing)
  then show ?thesis
    by (simp add: row_cells_def butlast_append split_pipes_nonempty)
qed

section \<open>Properties of the renderer\<close>

lemma forEach_component_append:
  "forEach_component components mdxContent = mdxContent @ concat (map render_block components)"
  by (induction components arbitrary: mdxContent) simp_all

lemma render_concat: "render components = preamble @ concat (map render_block components)"
  by (simp add: render_def forEach_component_append)

section \<open>The script on structurally valid catalogs\<close>

lemma required_string_Some: "required_string v = Some s \<Longrightarrow> v = Val (JStr s)"
  by (cases v rule: required_string.cases) simp_all

lemma optional_string_Some:
  "optional_string v = Some d \<Longrightarrow>
   (v = Undefined \<and> d = None) \<or> (\<exists>s. v = Val (JStr s) \<and> d = Some s)"
  by (cases v rule: optional_string.cases) auto

lemma those_as_string: "those (map as_string xs) = Some ss \<Longrightarrow> xs = map JStr ss"
proof (induction xs arbitrary: ss)
  case Nil
  then show ?case by simp
next
  case (Cons x xs)
  then show ?case
    by (cases x) (auto split: option.splits)
qed

lemma optional_strings_Some:
  "optional_strings v = Some os \<Longrightarrow>
   (v = Undefined \<and> os = None) \<or> (\<exists>ss. v = Val (JArr (map JStr ss)) \<and> os = Some ss)"
  by (cases v rule: optional_strings.cases) (auto dest: those_as_string)

lemma join_json_strings: "join_json sep (map JStr ss) = Some (join sep ss)"
  by (induction sep ss rule: join.induct) simp_all

lemma render_row_json_decode:
  assumes "decode_property j = Some p"
  shows "render_row_json j = Some (render_row p)"
proof (cases j)
  case (JObj kvs)
  with assms obtain n t d os ds where
    n: "required_string (own_property kvs ''name'') = Some n"
    and t: "required_string (own_property kvs ''type'') = Some t"
    and d: "optional_string (own_property kvs ''default'') = Some d"
    and os: "optional_strings (own_property kvs ''options'') = Some os"
    and ds: "required_string (own_property kvs ''description'') = Some ds"
    and p: "p = \<lparr>prop_name = n, prop_type = t, prop_default = d,
             prop_options = os, prop_description = ds\<rparr>"
    by (auto simp: bind_eq_Some_conv)
  note fields = required_string_Some [OF n] required_string_Some [OF t]
    required_string_Some [OF ds]
  from optional_string_Some [OF d]
  have dt: "(if truthy (own_property kvs ''default'')
      then do { d \<leftarrow> interpolate (own_property kvs ''default''); Some (''`'' @ d @ ''`'') }
      else Some []) = Some (default_cell p)"
    by (auto simp: default_cell_def p)
  from optional_strings_Some [OF os]
  have ot: "(if truthy (own_property kvs ''options'')
      then do { os \<leftarrow> options_join (own_property kvs ''options''); Some (''`'' @ os @ ''`'') }
      else Some []) = Some (options_cell p)"
    by (auto simp: options_cell_def p join_json_strings)
  show ?thesis
    unfolding render_row_json_def JObj get.simps
    by (simp add: dt ot) (simp add: fields render_row_def name_cell_def type_cell_def p)
qed (use assms in simp_all)

lemma rows_json_decode:
  "those (map decode_property props) = Some ps \<Longrightarrow>
   those (map render_row_json props) = Some (map render_row ps)"
proof (induction props arbitrary: ps)
  case Nil
  then show ?case by simp
next
  case (Cons x xs)
  then show ?case
    by (auto simp: render_row_json_decode split: option.splits)
qed

lemma decode_props_Some:
  "decode_props v = Some ps \<Longrightarrow>
   \<exists>props. v = Val (JArr props) \<and> those (map decode_property props) = Some ps"
  by (cases v rule: decode_props.cases) simp_all

lemma render_block_json_decode:
  assumes "decode_component j = Some c"
  shows "render_block_json j = Some (render_block c)"
proof (cases j)
  case (JObj kvs)
  with assms obtain n ds im ps ex where
    n: "required_string (own_property kvs ''name'') = Some n"
    and ds: "required_string (own_property kvs ''description'') = Some ds"
    and im: "required_string (own_property kvs ''import'') = Some im"
    and ps: "decode_props (own_property kvs ''props'') = Some ps"
    and ex: "required_string (own_property kvs ''example'') = Some ex"
    and c: "c = \<lparr>comp_name = n, comp_description = ds, comp_import = im,
             comp_props = ps, comp_example = ex\<rparr>"
    by (auto simp: bind_eq_Some_conv)
  note fields = required_string_Some [OF n] required_string_Some [OF ds]
    required_string_Some [OF im] required_string_Some [OF ex]
  from decode_props_Some [OF ps]
  have rows: "props_map (own_property kvs ''props'') = Some (map render_row ps)"
    by (auto simp: rows_json_decode)
  show ?thesis
    unfolding render_block_json_def JObj get.simps
    by (simp add: rows)
      (simp add: fields render_block_def block_head_def table_header_def block_tail_def c)
qed (use assms in simp_all)

lemma forEach_json_decode:
  "those (map decode_component cs) = Some catalog \<Longrightarrow>
   forEach_json cs mdxContent = Some (forEach_component catalog mdxContent)"
proof (induction cs arbitrary: catalog mdxContent)
  case Nil
  then show ?case by simp
next
  case (Cons x xs)
  then show ?case
    by (auto simp: render_block_json_decode split: option.splits)
qed

lemma decode_components_Some:
  "decode_components v = Some catalog \<Longrightarrow>
   \<exists>cs. v = Val (JArr cs) \<and> those (map decode_component cs) = Some catalog"
  by (cases v rule: decode_components.cases) simp_all

text \<open>On a value that decodes, the script renders what the typed renderer renders.\<close>

lemma render_json_decode:
  assumes "decode_catalog data = Some catalog"
  shows "render_json data = Some (render catalog)"
proof (cases data)
  case (JObj kvs)
  with assms have "decode_components (own_property kvs ''components'') = Some catalog"
    by simp
  from decode_components_Some [OF this] show ?thesis
    unfolding render_json_def JObj
    by (auto simp: forEach_json_decode render_def)
qed (use assms in simp_all)

lemma decode_badge_json: "decode_catalog badge_json = Some [badge]"
  by (simp add: badge_json_def badge_def badge_color_def own_property_def)

text \<open>Rendering a structurally valid catalog raises nowhere.\<close>

lemma is_string_interpolate: "is_string v \<Longrightarrow> \<exists>s. v = Val (JStr s)"
  by (cases v rule: is_string.cases) simp_all

lemma is_literal_to_string: "is_literal v \<Longrightarrow> \<exists>s. to_string v = Some s"
  by (cases v) simp_all

lemma is_literal_element_string: "is_literal v \<Longrightarrow> \<exists>s. element_string v = Some s"
  by (cases v) simp_all

lemma literals_join_json: "list_all is_literal xs \<Longrightarrow> \<exists>s. join_json sep xs = Some s"
proof (induction xs rule: induct_list012)
  case 1
  show ?case by simp
next
  case (2 x)
  then show ?case using is_literal_element_string [of x] by simp
next
  case (3 x y ys)
  then obtain r where "join_json sep (y # ys) = Some r" by auto
  moreover from 3 obtain s where "element_string x = Some s"
    using is_literal_element_string [of x] by auto
  ultimately show ?case by simp
qed

lemma default_text_total:
  "optional_literal v \<Longrightarrow>
   \<exists>s. (if truthy v then do { d \<leftarrow> interpolate v; Some (''`'' @ d @ ''`'') } else Some []) = Some s"
proof (cases v)
  case Undefined
  then show ?thesis by simp
next
  case (Val j)
  assume "optional_literal v"
  with Val obtain s where "to_string j = Some s"
    using is_literal_to_string [of j] by auto
  with Val show ?thesis by simp
qed

lemma options_text_total:
  "optional_literals v \<Longrightarrow>
   \<exists>s. (if truthy v then do { os \<leftarrow> options_join v; Some (''`'' @ os @ ''`'') } else Some []) = Some s"
proof (cases v rule: optional_literals.cases)
  case 1
  then show ?thesis by simp
next
  case (2 xs)
  assume "optional_literals v"
  with 2 obtain s where "join_json ''`, `'' xs = Some s"
    using literals_join_json [of xs "''`, `''"] by auto
  with 2 show ?thesis by simp
qed auto

lemma valid_property_renders:
  assumes "valid_property j"
  shows "\<exists>row. render_row_json j = Some row"
proof (cases j)
  case (JObj kvs)
  with assms have n: "is_string (own_property kvs ''name'')"
    and t: "is_string (own_property kvs ''type'')"
    and d: "optional_literal (own_property kvs ''default'')"
    and os: "optional_literals (own_property kvs ''options'')"
    and ds: "is_string (own_property kvs ''description'')"
    by simp_all
  from is_string_interpolate [OF n] is_string_interpolate [OF t] is_string_interpolate [OF ds]
    default_text_total [OF d] options_text_total [OF os]
  show ?thesis
    unfolding render_row_json_def JObj get.simps by (elim exE) simp
qed (use assms in simp_all)

lemma valid_props_render:
  "list_all valid_property props \<Longrightarrow> \<exists>rows. those (map render_row_json props) = Some rows"
proof (induction props)
  case Nil
  show ?case by simp
next
  case (Cons x xs)
  then obtain rows where "those (map render_row_json xs) = Some rows" by auto
  moreover from Cons.prems obtain row where "render_row_json x = Some row"
    using valid_property_renders [of x] by auto
  ultimately show ?case by simp
qed

lemma valid_component_renders:
  assumes "valid_component j"
  shows "\<exists>block. render_block_json j = Some block"
proof (cases j)
  case (JObj kvs)
  with assms have n: "is_string (own_property kvs ''name'')"
    and ds: "is_string (own_property kvs ''description'')"
    and im: "is_string (own_property kvs ''import'')"
    and ps: "valid_props (own_property kvs ''props'')"
    and ex: "is_string (own_property kvs ''example'')"
    by simp_all
  from ps have "\<exists>rows. props_map (own_property kvs ''props'') = Some rows"
    by (cases "own_property kvs ''props''" rule: valid_props.cases)
      (simp_all add: valid_props_render)
  with is_string_interpolate [OF n] is_string_interpolate [OF ds] is_string_interpolate [OF im]
    is_string_interpolate [OF ex]
  show ?thesis
    unfolding render_block_json_def JObj get.simps by (elim exE) simp
qed (use assms in simp_all)

lemma valid_components_render:
  "list_all valid_component cs \<Longrightarrow> \<exists>out. forEach_json cs mdxContent = Some out"
proof (induction cs arbitrary: mdxContent)
  case Nil
  show ?case by simp
next
  case (Cons x xs)
  from Cons.prems obtain block where "render_block_json x = Some block"
    using valid_component_renders [of x] by auto
  moreover from Cons obtain out where "forEach_json xs (mdxContent @ block) = Some out"
    by fastforce
  ultimately show ?case by simp
qed

lemma valid_catalog_renders:
  assumes "valid_catalog data"
  shows "\<exists>mdxContent. render_json data = Some mdxContent"
proof (cases data)
  case (JObj kvs)
  with assms have "valid_components (own_property kvs ''components'')"
    by simp
  then show ?thesis
    unfolding render_json_def JObj
    by (cases "own_property kvs ''components''" rule: valid_components.cases)
      (simp_all add: valid_components_render)
qed (use assms in simp_all)

text \<open>A value that decodes is structurally valid.\<close>

lemma required_string_is_string: "required_string v = Some s \<Longrightarrow> is_string v"
  by (cases v rule: required_string.cases) simp_all

lemma optional_string_literal: "optional_string v = Some d \<Longrightarrow> optional_literal v"
  by (cases v rule: optional_string.cases) simp_all

lemma optional_strings_literals: "optional_strings v = Some os \<Longrightarrow> optional_literals v"
  by (cases v rule: optional_strings.cases) (auto dest!: those_as_string simp: list_all_iff)

lemma decode_property_valid: "decode_property j = Some p \<Longrightarrow> valid_property j"
  by (cases j)
    (auto simp: bind_eq_Some_conv required_string_is_string optional_string_literal
      optional_strings_literals)

lemma decode_properties_valid:
  "those (map decode_property props) = Some ps \<Longrightarrow> list_all valid_property props"
  by (induction props arbitrary: ps) (auto simp: decode_property_valid split: option.splits)

lemma decode_component_valid: "decode_component j = Some c \<Longrightarrow> valid_component j"
  by (cases j)
    (auto simp: bind_eq_Some_conv required_string_is_string
      dest!: decode_props_Some decode_properties_valid)

lemma decode_components_valid:
  "those (map decode_component cs) = Some catalog \<Longrightarrow> list_all valid_component cs"
  by (induction cs arbitrary: catalog) (auto simp: decode_component_valid split: option.splits)

lemma decode_catalog_valid: "decode_catalog data = Some catalog \<Longrightarrow> valid_catalog data"
  by (cases data) (auto dest!: decode_components_Some decode_components_valid)

section \<open>Properties of the catalog part\<close>

text \<open>The script reads nothing of a parsed value but its catalog part.\<close>

lemma own_property_Nil [simp]: "own_property [] k = Undefined"
  by (simp add: own_property_def)

lemma own_property_append:
  "own_property (xs @ ys) k =
     (case own_property ys k of Undefined \<Rightarrow> own_property xs k | Val v \<Rightarrow> Val v)"
  by (simp add: own_property_def map_add_def split: option.splits)

lemma case_jsval_id [simp]: "(case x of Undefined \<Rightarrow> Undefined | Val v \<Rightarrow> Val (id v)) = x"
  by (cases x) simp_all

lemma own_property_kept_member:
  "own_property (kept_member kvs a f) k =
     (if k = a then (case own_property kvs a of Undefined \<Rightarrow> Undefined | Val v \<Rightarrow> Val (f v))
      else Undefined)"
  by (simp add: kept_member_def own_property_def split: jsval.splits option.splits)

lemma property_part_members:
  fixes kvs
  defines "part \<equiv> kept_member kvs ''name'' id @ kept_member kvs ''type'' id @ kept_member kvs ''default'' id
           @ kept_member kvs ''options'' id @ kept_member kvs ''description'' id"
  shows "own_property part ''name'' = own_property kvs ''name''"
    and "own_property part ''type'' = own_property kvs ''type''"
    and "own_property part ''default'' = own_property kvs ''default''"
    and "own_property part ''options'' = own_property kvs ''options''"
    and "own_property part ''description'' = own_property kvs ''description''"
  unfolding part_def
  by (simp_all add: own_property_append own_property_kept_member split: jsval.splits)

lemma render_row_json_property_part: "render_row_json (property_part j) = render_row_json j"
proof (cases j)
  case (JObj kvs)
  show ?thesis
    unfolding JObj property_part.simps render_row_json_def get.simps
    by (simp only: property_part_members bind.simps)
qed simp_all

lemma props_map_props_part: "props_map (Val (props_part v)) = props_map (Val v)"
  by (cases v) (simp_all add: render_row_json_property_part comp_def)

lemma component_part_members:
  fixes kvs
  defines "part \<equiv> kept_member kvs ''name'' id @ kept_member kvs ''description'' id @ kept_member kvs ''import'' id
           @ kept_member kvs ''props'' props_part @ kept_member kvs ''example'' id"
  shows "own_property part ''name'' = own_property kvs ''name''"
    and "own_property part ''description'' = own_property kvs ''description''"
    and "own_property part ''import'' = own_property kvs ''import''"
    and "own_property part ''props'' =
          (case own_property kvs ''props'' of Undefined \<Rightarrow> Undefined | Val v \<Rightarrow> Val (props_part v))"
    and "own_property part ''example'' = own_property kvs ''example''"
  unfolding part_def
  by (simp_all add: own_property_append own_property_kept_member split: jsval.splits)

lemma render_block_json_component_part: "render_block_json (component_part j) = render_block_json j"
proof (cases j)
  case (JObj kvs)
  have props: "props_map (case own_property kvs ''props'' of Undefined \<Rightarrow> Undefined
                 | Val v \<Rightarrow> Val (props_part v)) = props_map (own_property kvs ''props'')"
    by (cases "own_property kvs ''props''") (simp_all add: props_map_props_part)
  show ?thesis
    unfolding JObj component_part.simps render_block_json_def get.simps
    by (simp only: component_part_members props bind.simps)
qed simp_all

lemma forEach_json_component_part:
  "forEach_json (map component_part cs) mdxContent = forEach_json cs mdxContent"
  by (induction cs arbitrary: mdxContent) (simp_all add: render_block_json_component_part)

lemma components_forEach_components_part:
  "components_forEach (Val (components_part v)) = components_forEach (Val v)"
  by (cases v) (simp_all add: forEach_json_component_part)

lemma render_json_catalog_part: "render_json (catalog_part data) = render_json data"
proof (cases data)
  case (JObj kvs)
  show ?thesis
    unfolding JObj catalog_part.simps render_json_def get.simps
    by (cases "own_property kvs ''components''")
      (simp_all add: own_property_kept_member components_forEach_components_part)
qed simp_all

lemma kept_member_Val: "own_property kvs k = Val v \<Longrightarrow> kept_member kvs k f = [(k, f v)]"
  by (simp add: kept_member_def)

lemma kept_member_Undefined: "own_property kvs k = Undefined \<Longrightarrow> kept_member kvs k f = []"
  by (simp add: kept_member_def)

lemma decode_property_part:
  assumes "decode_property j = Some p"
  shows "property_part j = encode_property p"
proof (cases j)
  case (JObj kvs)
  with assms obtain n t d os ds where
    n: "required_string (own_property kvs ''name'') = Some n"
    and t: "required_string (own_property kvs ''type'') = Some t"
    and d: "optional_string (own_property kvs ''default'') = Some d"
    and os: "optional_strings (own_property kvs ''options'') = Some os"
    and ds: "required_string (own_property kvs ''description'') = Some ds"
    and p: "p = \<lparr>prop_name = n, prop_type = t, prop_default = d,
             prop_options = os, prop_description = ds\<rparr>"
    by (auto simp: bind_eq_Some_conv)
  have m1: "kept_member kvs ''name'' id = [(''name'', JStr n)]"
    and m2: "kept_member kvs ''type'' id = [(''type'', JStr t)]"
    and m5: "kept_member kvs ''description'' id = [(''description'', JStr ds)]"
    using required_string_Some [OF n] required_string_Some [OF t] required_string_Some [OF ds]
    by (simp_all add: kept_member_Val)
  have m3: "kept_member kvs ''default'' id = (case d of None \<Rightarrow> [] | Some s \<Rightarrow> [(''default'', JStr s)])"
    using optional_string_Some [OF d] by (auto simp: kept_member_Val kept_member_Undefined)
  have m4: "kept_member kvs ''options'' id =
      (case os of None \<Rightarrow> [] | Some ss \<Rightarrow> [(''options'', JArr (map JStr ss))])"
    using optional_strings_Some [OF os] by (auto simp: kept_member_Val kept_member_Undefined)
  show ?thesis
    unfolding JObj property_part.simps m1 m2 m3 m4 m5
    by (simp add: encode_property_def p)
qed (use assms in simp_all)

lemma decode_properties_part:
  "those (map decode_property props) = Some ps \<Longrightarrow>
   map property_part props = map encode_property ps"
  by (induction props arbitrary: ps) (auto simp: decode_property_part split: option.splits)

lemma decode_component_part:
  assumes "decode_component j = Some c"
  shows "component_part j = encode_component c"
proof (cases j)
  case (JObj kvs)
  with assms obtain n ds im ps ex where
    n: "required_string (own_property kvs ''name'') = Some n"
    and ds: "required_string (own_property kvs ''description'') = Some ds"
    and im: "required_string (own_property kvs ''import'') = Some im"
    and ps: "decode_props (own_property kvs ''props'') = Some ps"
    and ex: "required_string (own_property kvs ''example'') = Some ex"
    and c: "c = \<lparr>comp_name = n, comp_description = ds, comp_import = im,
             comp_props = ps, comp_example = ex\<rparr>"
    by (auto simp: bind_eq_Some_conv)
  have m1: "kept_member kvs ''name'' id = [(''name'', JStr n)]"
    and m2: "kept_member kvs ''description'' id = [(''description'', JStr ds)]"
    and m3: "kept_member kvs ''import'' id = [(''import'', JStr im)]"
    and m5: "kept_member kvs ''example'' id = [(''example'', JStr ex)]"
    using required_string_Some [OF n] required_string_Some [OF ds] required_string_Some [OF im]
      required_string_Some [OF ex]
    by (simp_all add: kept_member_Val)
  from decode_props_Some [OF ps] obtain props where
    v: "own_property kvs ''props'' = Val (JArr props)"
    and props: "those (map decode_property props) = Some ps"
    by blast
  have m4: "kept_member kvs ''props'' props_part = [(''props'', JArr (map encode_property ps))]"
    by (simp add: kept_member_Val [OF v] decode_properties_part [OF props])
  show ?thesis
    unfolding JObj component_part.simps m1 m2 m3 m4 m5
    by (simp add: encode_component_def c)
qed (use assms in simp_all)

lemma decode_components_part:
  "those (map decode_component cs) = Some catalog \<Longrightarrow>
   map component_part cs = map encode_component catalog"
  by (induction cs arbitrary: catalog) (auto simp: decode_component_part split: option.splits)

text \<open>The catalog part of a value that decodes is the canonical value of its catalog.\<close>

lemma decode_catalog_part:
  assumes "decode_catalog data = Some catalog"
  shows "catalog_part data = encode_catalog catalog"
proof (cases data)
  case (JObj kvs)
  with assms have "decode_components (own_property kvs ''components'') = Some catalog"
    by simp
  from decode_components_Some [OF this] obtain cs where
    v: "own_property kvs ''components'' = Val (JArr cs)"
    and cs: "those (map decode_component cs) = Some catalog"
    by blast
  show ?thesis
    unfolding JObj catalog_part.simps
    by (simp add: kept_member_Val [OF v] decode_components_part [OF cs] encode_catalog_def)
qed (use assms in simp_all)

lemma decode_badge_json_annotated: "decode_catalog badge_json_annotated = Some [badge]"
  by (simp add: badge_json_annotated_def badge_def badge_color_def own_property_def)

section \<open>The claims\<close>

subsection \<open>C1: the type cell and the five columns\<close>

text \<open>
  C1. For every property record the rendered type cell is the type string between
  inline-code markers, with every \<^verbatim>\<open>|\<close> replaced by a backslash and \<^verbatim>\<open>|\<close>. When
  the name, the default, the options and the description hold no unescaped \<^verbatim>\<open>|\<close>,
  the rendered row, cut at the unescaped \<^verbatim>\<open>|\<close>, has exactly five columns, whatever the
  type holds. A record of type \<^verbatim>\<open>default | primary\<close> has the type cell
  \<^verbatim>\<open>`default \| primary`\<close>.
\<close>

theorem type_cell_escaped_five_columns:
  "type_cell prop = ''`'' @ escape_spec (prop_type prop) @ ''`''
   \<and> (no_unescaped_pipe (prop_name prop) \<longrightarrow>
        (\<forall>d. prop_default prop = Some d \<longrightarrow> no_unescaped_pipe d) \<longrightarrow>
        (\<forall>os. prop_options prop = Some os \<longrightarrow> (\<forall>opt\<in>set os. no_unescaped_pipe opt)) \<longrightarrow>
        no_unescaped_pipe (prop_description prop) \<longrightarrow>
        row_cells (render_row prop) =
          [pad (name_cell prop), pad (type_cell prop), pad (default_cell prop),
           pad (options_cell prop), pad (prop_description prop)]
        \<and> length (row_cells (render_row prop)) = 5)
   \<and> (prop_type prop = ''default | primary'' \<longrightarrow>
        type_cell prop = ''`default '' @ [backslash] @ ''| primary`'')"
proof (intro conjI impI)
  show "type_cell prop = ''`'' @ escape_spec (prop_type prop) @ ''`''"
    by (simp add: type_cell_def replace_pipe_spec)
next
  assume "prop_type prop = ''default | primary''"
  then show "type_cell prop = ''`default '' @ [backslash] @ ''| primary`''"
    by (simp add: type_cell_def pipe_def)
next
  assume h: "no_unescaped_pipe (prop_name prop)"
    "\<forall>d. prop_default prop = Some d \<longrightarrow> no_unescaped_pipe d"
    "\<forall>os. prop_options prop = Some os \<longrightarrow> (\<forall>opt\<in>set os. no_unescaped_pipe opt)"
    and d: "no_unescaped_pipe (prop_description prop)"
  from d have "split_pipes (pad (prop_description prop)) = [pad (prop_description prop)]"
    using no_unescaped_pipe_pad [of "prop_description prop"] by (simp add: no_unescaped_pipe_def)
  with row_cells_render_row [OF h]
  show cells: "row_cells (render_row prop) =
          [pad (name_cell prop), pad (type_cell prop), pad (default_cell prop),
           pad (options_cell prop), pad (prop_description prop)]"
    by simp
  then show "length (row_cells (render_row prop)) = 5"
    by simp
qed

text \<open>The property \<^verbatim>\<open>color\<close> of the example scenario meets every hypothesis.\<close>

theorem type_cell_escaped_five_columns_witness:
  "no_unescaped_pipe (prop_name badge_color)
   \<and> prop_default badge_color = Some ''default'' \<and> no_unescaped_pipe ''default''
   \<and> prop_options badge_color = Some [''default'', ''primary''] \<and> no_unescaped_pipe ''primary''
   \<and> no_unescaped_pipe (prop_description badge_color)
   \<and> prop_type badge_color = ''default | primary''
   \<and> pipe \<in> set (prop_type badge_color)
   \<and> type_cell badge_color = ''`default '' @ [backslash] @ ''| primary`''
   \<and> row_cells (render_row badge_color) =
        ['' `color` '', '' `default '' @ [backslash] @ ''| primary` '', '' `default` '',
         '' `default`, `primary` '', '' d '']
   \<and> length (row_cells (render_row badge_color)) = 5"
proof -
  have h1: "no_unescaped_pipe (prop_name badge_color)"
    by (simp add: badge_color_def no_unescaped_pipe_def pipe_def backslash_def)
  have d: "no_unescaped_pipe ''default''" and p: "no_unescaped_pipe ''primary''"
    by (simp_all add: no_unescaped_pipe_def pipe_def backslash_def)
  have h2: "\<forall>d. prop_default badge_color = Some d \<longrightarrow> no_unescaped_pipe d"
    using d by (simp add: badge_color_def)
  have h3: "\<forall>os. prop_options badge_color = Some os \<longrightarrow> (\<forall>opt\<in>set os. no_unescaped_pipe opt)"
    using d p by (simp add: badge_color_def)
  have h4: "no_unescaped_pipe (prop_description badge_color)"
    by (simp add: badge_color_def no_unescaped_pipe_def pipe_def backslash_def)
  have h5: "prop_type badge_color = ''default | primary''"
    by (simp add: badge_color_def)
  from type_cell_escaped_five_columns [of badge_color] h1 h2 h3 h4 h5
  have "type_cell badge_color = ''`default '' @ [backslash] @ ''| primary`''
     \<and> row_cells (render_row badge_color) =
          [pad (name_cell badge_color), pad (type_cell badge_color), pad (default_cell badge_color),
           pad (options_cell badge_color), pad (prop_description badge_color)]
     \<and> length (row_cells (render_row badge_color)) = 5"
    by blast
  moreover have "pad (name_cell badge_color) = '' `color` ''"
    "pad (default_cell badge_color) = '' `default` ''"
    "pad (options_cell badge_color) = '' `default`, `primary` ''"
    "pad (prop_description badge_color) = '' d ''"
    by (simp_all add: badge_color_def pad_def name_cell_def default_cell_def options_cell_def)
  moreover have "prop_default badge_color = Some ''default''"
    "prop_options badge_color = Some [''default'', ''primary'']"
    "pipe \<in> set (prop_type badge_color)"
    by (simp_all add: badge_color_def pipe_def)
  ultimately show ?thesis
    using h1 h4 h5 d p by (simp add: pad_def)
qed

text \<open>
  Without the hypothesis on the other fields the row may have more columns: the
  description is written as it is, and a \<^verbatim>\<open>|\<close> in it cuts the row once more.
\<close>

theorem five_columns_counterexample:
  "pipe \<in> set (prop_type piped_description)
   \<and> length (row_cells (render_row piped_description)) = 6"
  by (simp add: piped_description_def render_row_def name_cell_def type_cell_def
      default_cell_def options_cell_def row_cells_def pipe_def backslash_def)

subsection \<open>C2: the default cell\<close>

text \<open>
  C2. The rendered default cell is empty if and only if the field \<^verbatim>\<open>default\<close> is absent
  or is the empty string; any other default is written between inline-code markers. A
  record with neither \<^verbatim>\<open>default\<close> nor \<^verbatim>\<open>options\<close> renders a row whose default and
  options cells are two empty cells.
\<close>

theorem default_cell_empty_iff_falsy:
  "(default_cell prop = [] \<longleftrightarrow> prop_default prop = None \<or> prop_default prop = Some [])
   \<and> (\<forall>d. prop_default prop = Some d \<longrightarrow> d \<noteq> [] \<longrightarrow> default_cell prop = ''`'' @ d @ ''`'')
   \<and> (prop_default prop = None \<longrightarrow> prop_options prop = None \<longrightarrow>
        default_cell prop = [] \<and> options_cell prop = []
        \<and> render_row prop =
            ''| '' @ name_cell prop @ '' | '' @ type_cell prop @ '' |  |  | ''
            @ prop_description prop @ '' |'')"
  by (auto simp: default_cell_def options_cell_def render_row_def split: option.splits)

theorem default_cell_empty_iff_falsy_witness:
  "prop_default badge_color = Some ''default'' \<and> ''default'' \<noteq> []
   \<and> default_cell badge_color = ''`default`''
   \<and> prop_default bare_property = None \<and> prop_options bare_property = None
   \<and> default_cell bare_property = [] \<and> options_cell bare_property = []
   \<and> render_row bare_property = ''| `title` | `ReactNode` |  |  | The alert title |''"
proof -
  have b: "prop_default badge_color = Some ''default''"
    by (simp add: badge_color_def)
  have n: "prop_default bare_property = None" "prop_options bare_property = None"
    by (simp_all add: bare_property_def)
  from default_cell_empty_iff_falsy [of badge_color] b
  have "default_cell badge_color = ''`default`''"
    by simp
  moreover from default_cell_empty_iff_falsy [of bare_property] n
  have "default_cell bare_property = [] \<and> options_cell bare_property = []
    \<and> render_row bare_property =
        ''| '' @ name_cell bare_property @ '' | '' @ type_cell bare_property @ '' |  |  | ''
        @ prop_description bare_property @ '' |''"
    by blast
  moreover have "name_cell bare_property = ''`title`''" "type_cell bare_property = ''`ReactNode`''"
    "prop_description bare_property = ''The alert title''"
    by (simp_all add: bare_property_def name_cell_def type_cell_def pipe_def)
  ultimately show ?thesis
    using b n by simp
qed

text \<open>
  As the claim is written, a default that is present gives a cell that is not empty. The
  empty string is present and falsy.
\<close>

theorem default_present_cell_empty_counterexample:
  "prop_default empty_default \<noteq> None \<and> default_cell empty_default = []"
  by (simp add: empty_default_def default_cell_def)

text \<open>
  On parsed values the same test also leaves the cell empty for the number zero, for
  \<^verbatim>\<open>false\<close> and for \<^verbatim>\<open>null\<close>.
\<close>

lemma falsy_default_cell_empty:
  "render_row_json (JObj [(''name'', JStr ''gap''), (''type'', JStr ''number''),
     (''default'', JNum ''0''), (''description'', JStr ''d'')]) = Some ''| `gap` | `number` |  |  | d |''"
  "render_row_json (JObj [(''name'', JStr ''open''), (''type'', JStr ''boolean''),
     (''default'', JBool False), (''description'', JStr ''d'')]) = Some ''| `open` | `boolean` |  |  | d |''"
  "render_row_json (JObj [(''name'', JStr ''icon''), (''type'', JStr ''ReactNode''),
     (''default'', JNull), (''description'', JStr ''d'')]) = Some ''| `icon` | `ReactNode` |  |  | d |''"
  by (simp_all add: render_row_json_def own_property_def pipe_def)

subsection \<open>C3: the other fields are written as they are\<close>

text \<open>
  C3. The type is the only field the renderer transforms. The row is the template with
  the name, the default, the options and the description put in unchanged; in
  particular a \<^verbatim>\<open>|\<close> of the description is not escaped, so the description is read as
  as many cells as its unescaped \<^verbatim>\<open>|\<close> cut it into.
\<close>

theorem other_fields_verbatim:
  "render_row prop =
     ''| `'' @ prop_name prop @ ''` | `'' @ replace_pipe (prop_type prop) @ ''` | ''
     @ default_cell prop @ '' | '' @ options_cell prop @ '' | '' @ prop_description prop @ '' |''
   \<and> (\<forall>d. prop_default prop = Some d \<longrightarrow> d \<noteq> [] \<longrightarrow> default_cell prop = ''`'' @ d @ ''`'')
   \<and> (\<forall>os. prop_options prop = Some os \<longrightarrow> options_cell prop = ''`'' @ join ''`, `'' os @ ''`'')
   \<and> (no_unescaped_pipe (prop_name prop) \<longrightarrow>
        (\<forall>d. prop_default prop = Some d \<longrightarrow> no_unescaped_pipe d) \<longrightarrow>
        (\<forall>os. prop_options prop = Some os \<longrightarrow> (\<forall>opt\<in>set os. no_unescaped_pipe opt)) \<longrightarrow>
        row_cells (render_row prop) =
          [pad (name_cell prop), pad (type_cell prop), pad (default_cell prop),
           pad (options_cell prop)]
          @ split_pipes ('' '' @ prop_description prop @ '' ''))"
proof (intro conjI impI allI)
  show "render_row prop =
     ''| `'' @ prop_name prop @ ''` | `'' @ replace_pipe (prop_type prop) @ ''` | ''
     @ default_cell prop @ '' | '' @ options_cell prop @ '' | '' @ prop_description prop @ '' |''"
    by (simp add: render_row_def name_cell_def type_cell_def)
next
  fix d assume "prop_default prop = Some d" "d \<noteq> []"
  then show "default_cell prop = ''`'' @ d @ ''`''"
    by (simp add: default_cell_def)
next
  fix os assume "prop_options prop = Some os"
  then show "options_cell prop = ''`'' @ join ''`, `'' os @ ''`''"
    by (simp add: options_cell_def)
next
  assume h: "no_unescaped_pipe (prop_name prop)"
    "\<forall>d. prop_default prop = Some d \<longrightarrow> no_unescaped_pipe d"
    "\<forall>os. prop_options prop = Some os \<longrightarrow> (\<forall>opt\<in>set os. no_unescaped_pipe opt)"
  show "row_cells (render_row prop) =
          [pad (name_cell prop), pad (type_cell prop), pad (default_cell prop),
           pad (options_cell prop)]
          @ split_pipes ('' '' @ prop_description prop @ '' '')"
    using row_cells_render_row [OF h] by (simp add: pad_def)
qed

theorem other_fields_verbatim_witness:
  "no_unescaped_pipe (prop_name piped_description)
   \<and> prop_default piped_description = None \<and> prop_options piped_description = None
   \<and> prop_description piped_description = ''left | right edge''
   \<and> render_row piped_description =
       ''| `align` | `left '' @ [backslash] @ ''| right` |  |  | left | right edge |''
   \<and> row_cells (render_row piped_description) =
       ['' `align` '', '' `left '' @ [backslash] @ ''| right` '', ''  '', ''  '',
        '' left '', '' right edge '']
   \<and> prop_default badge_color = Some ''default'' \<and> default_cell badge_color = ''`default`''
   \<and> prop_options badge_color = Some [''default'', ''primary'']
   \<and> options_cell badge_color = ''`default`, `primary`''"
proof -
  have h1: "no_unescaped_pipe (prop_name piped_description)"
    by (simp add: piped_description_def no_unescaped_pipe_def pipe_def backslash_def)
  have n1: "prop_default piped_description = None"
    and n2: "prop_options piped_description = None"
    and n3: "prop_description piped_description = ''left | right edge''"
    by (simp_all add: piped_description_def)
  have h2: "\<forall>d. prop_default piped_description = Some d \<longrightarrow> no_unescaped_pipe d"
    and h3: "\<forall>os. prop_options piped_description = Some os \<longrightarrow> (\<forall>opt\<in>set os. no_unescaped_pipe opt)"
    by (simp_all add: n1 n2)
  have b1: "prop_default badge_color = Some ''default''"
    and b2: "prop_options badge_color = Some [''default'', ''primary'']"
    by (simp_all add: badge_color_def)
  note p = other_fields_verbatim [of piped_description]
  note b = other_fields_verbatim [of badge_color]
  have fields: "prop_name piped_description = ''align''"
    "replace_pipe (prop_type piped_description) = ''left '' @ [backslash] @ ''| right''"
    "default_cell piped_description = []" "options_cell piped_description = []"
    by (simp_all add: piped_description_def default_cell_def options_cell_def pipe_def)
  have cells: "pad (name_cell piped_description) = '' `align` ''"
    "pad (type_cell piped_description) = '' `left '' @ [backslash] @ ''| right` ''"
    "pad (default_cell piped_description) = ''  ''"
    "pad (options_cell piped_description) = ''  ''"
    by (simp_all add: piped_description_def pad_def name_cell_def type_cell_def default_cell_def
        options_cell_def pipe_def)
  have pieces: "split_pipes ('' '' @ prop_description piped_description @ '' '') = ['' left '', '' right edge '']"
    by (simp add: n3 pipe_def backslash_def)
  have row: "render_row piped_description =
       ''| `align` | `left '' @ [backslash] @ ''| right` |  |  | left | right edge |''"
    using p [THEN conjunct1] by (simp add: fields n3)
  have "row_cells (render_row piped_description) =
       [pad (name_cell piped_description), pad (type_cell piped_description),
        pad (default_cell piped_description), pad (options_cell piped_description)]
       @ split_pipes ('' '' @ prop_description piped_description @ '' '')"
    by (rule mp [OF mp [OF mp [OF p [THEN conjunct2, THEN conjunct2, THEN conjunct2] h1] h2] h3])
  also have "\<dots> =
       ['' `align` '', '' `left '' @ [backslash] @ ''| right` '', ''  '', ''  '',
        '' left '', '' right edge '']"
    unfolding cells pieces by simp
  finally have split: "row_cells (render_row piped_description) =
       ['' `align` '', '' `left '' @ [backslash] @ ''| right` '', ''  '', ''  '',
        '' left '', '' right edge '']" .
  have dc: "default_cell badge_color = ''`default`''"
    using b [THEN conjunct2, THEN conjunct1, rule_format, OF b1] by simp
  have oc: "options_cell badge_color = ''`default`, `primary`''"
    using b [THEN conjunct2, THEN conjunct2, THEN conjunct1, rule_format, OF b2] by simp
  show ?thesis
    by (intro conjI h1 n1 n2 n3 row split b1 b2 dc oc)
qed

subsection \<open>C4: one block per component, in catalog order\<close>

text \<open>
  C4. The rendered document is the preamble followed by one block per component record,
  in the order of the catalog: as many blocks as records, the preamble alone for the
  empty catalog, the block of a record after the blocks of the records before it and
  before the blocks of the records after it. In a block the table rows are the rows of
  the record's properties, in their order, one per line: the row of a property stands
  after the rows of the properties before it, each ended by a line break, and before
  the rows of the properties after it, each begun by a line break.
\<close>

theorem render_blocks_in_order:
  "render components = preamble @ concat (map render_block components)
   \<and> length (map render_block components) = length components
   \<and> render [] = preamble
   \<and> render [component] = preamble @ render_block component
   \<and> render (before @ component # after) =
       render before @ render_block component @ concat (map render_block after)
   \<and> render_block component =
       block_head component @ table_header
       @ join ''\<newline>'' (map render_row (comp_props component)) @ block_tail component
   \<and> length (map render_row (comp_props component)) = length (comp_props component)
   \<and> (\<forall>ps p qs. comp_props component = ps @ p # qs \<longrightarrow>
         render_block component =
           block_head component @ table_header
           @ concat (map (\<lambda>q. render_row q @ ''\<newline>'') ps)
           @ render_row p
           @ concat (map (\<lambda>q. ''\<newline>'' @ render_row q) qs)
           @ block_tail component)"
proof -
  have rows: "\<forall>ps p qs. comp_props component = ps @ p # qs \<longrightarrow>
         render_block component =
           block_head component @ table_header
           @ concat (map (\<lambda>q. render_row q @ ''\<newline>'') ps)
           @ render_row p
           @ concat (map (\<lambda>q. ''\<newline>'' @ render_row q) qs)
           @ block_tail component"
  proof (intro allI impI)
    fix ps p qs
    assume "comp_props component = ps @ p # qs"
    then have "join ''\<newline>'' (map render_row (comp_props component)) =
        concat (map (\<lambda>x. x @ ''\<newline>'') (map render_row ps)) @ render_row p
        @ concat (map (\<lambda>z. ''\<newline>'' @ z) (map render_row qs))"
      using join_append_Cons [of "''\<newline>''" "map render_row ps" "render_row p" "map render_row qs"]
      by simp
    then show "render_block component =
           block_head component @ table_header
           @ concat (map (\<lambda>q. render_row q @ ''\<newline>'') ps)
           @ render_row p
           @ concat (map (\<lambda>q. ''\<newline>'' @ render_row q) qs)
           @ block_tail component"
      by (simp add: render_block_def comp_def)
  qed
  have "render components = preamble @ concat (map render_block components)
   \<and> length (map render_block components) = length components
   \<and> render [] = preamble
   \<and> render [component] = preamble @ render_block component
   \<and> render (before @ component # after) =
       render before @ render_block component @ concat (map render_block after)
   \<and> render_block component =
       block_head component @ table_header
       @ join ''\<newline>'' (map render_row (comp_props component)) @ block_tail component
   \<and> length (map render_row (comp_props component)) = length (comp_props component)"
    by (simp add: render_concat render_block_def)
  with rows show ?thesis
    by (simp only: simp_thms)
qed

text \<open>A component with three properties: its rows stand in the order of the properties.\<close>

theorem render_blocks_in_order_witness:
  "comp_props alert = [bare_property] @ badge_color # [no_options]
   \<and> render_block alert =
       block_head alert @ table_header
       @ ''| `title` | `ReactNode` |  |  | The alert title |\<newline>''
       @ (''| `color` | `default '' @ [backslash] @ ''| primary` | `default` | `default`, `primary` | d |'')
       @ ''\<newline>| `size` | `string` |  | `` | The size. |''
       @ block_tail alert"
proof -
  have props: "comp_props alert = [bare_property] @ badge_color # [no_options]"
    by (simp add: alert_def)
  note t = render_blocks_in_order [of _ alert]
  have "render_block alert =
       block_head alert @ table_header
       @ concat (map (\<lambda>q. render_row q @ ''\<newline>'') [bare_property])
       @ render_row badge_color
       @ concat (map (\<lambda>q. ''\<newline>'' @ render_row q) [no_options])
       @ block_tail alert"
    by (rule mp [OF spec [OF spec [OF spec [OF t [THEN conjunct2, THEN conjunct2, THEN conjunct2,
      THEN conjunct2, THEN conjunct2, THEN conjunct2, THEN conjunct2]]]] props])
  moreover have "render_row bare_property = ''| `title` | `ReactNode` |  |  | The alert title |''"
    "render_row badge_color =
       ''| `color` | `default '' @ [backslash] @ ''| primary` | `default` | `default`, `primary` | d |''"
    "render_row no_options = ''| `size` | `string` |  | `` | The size. |''"
    by (simp_all add: bare_property_def badge_color_def no_options_def render_row_def
        name_cell_def type_cell_def default_cell_def options_cell_def pipe_def)
  ultimately have "render_block alert =
       block_head alert @ table_header
       @ ''| `title` | `ReactNode` |  |  | The alert title |\<newline>''
       @ (''| `color` | `default '' @ [backslash] @ ''| primary` | `default` | `default`, `primary` | d |'')
       @ ''\<newline>| `size` | `string` |  | `` | The size. |''
       @ block_tail alert"
    by simp
  with props show ?thesis
    by (rule conjI)
qed

subsection \<open>C5: the options cell\<close>

text \<open>
  C5. The rendered options cell is empty if the field \<^verbatim>\<open>options\<close> is absent. Otherwise
  it is the allowed values, in order, joined with the separator made of a marker, a
  comma, a space and a marker, between two markers: for one or more values, the values
  as code-formatted literals separated by a comma and a space. The options
  \<^verbatim>\<open>["default","primary"]\<close> render as \<^verbatim>\<open>`default`, `primary`\<close>.
\<close>

theorem options_cell_code_spans:
  "(prop_options prop = None \<longrightarrow> options_cell prop = [])
   \<and> (\<forall>os. prop_options prop = Some os \<longrightarrow>
         options_cell prop = ''`'' @ join ''`, `'' os @ ''`''
         \<and> (os \<noteq> [] \<longrightarrow> options_cell prop = join '', '' (map code_span os)))
   \<and> (prop_options prop = Some [''default'', ''primary''] \<longrightarrow>
         options_cell prop = ''`default`, `primary`'')"
proof (intro conjI impI allI)
  assume "prop_options prop = None"
  then show "options_cell prop = []"
    by (simp add: options_cell_def)
next
  fix os assume os: "prop_options prop = Some os"
  then show cell: "options_cell prop = ''`'' @ join ''`, `'' os @ ''`''"
    by (simp add: options_cell_def)
  assume "os \<noteq> []"
  then show "options_cell prop = join '', '' (map code_span os)"
    unfolding cell by (rule join_code_spans)
next
  assume "prop_options prop = Some [''default'', ''primary'']"
  then show "options_cell prop = ''`default`, `primary`''"
    by (simp add: options_cell_def)
qed

theorem options_cell_code_spans_witness:
  "prop_options bare_property = None \<and> options_cell bare_property = []
   \<and> prop_options badge_color = Some [''default'', ''primary'']
   \<and> [''default'', ''primary''] \<noteq> []
   \<and> options_cell badge_color = join '', '' [code_span ''default'', code_span ''primary'']
   \<and> options_cell badge_color = ''`default`, `primary`''"
proof -
  have n: "prop_options bare_property = None"
    by (simp add: bare_property_def)
  have b: "prop_options badge_color = Some [''default'', ''primary'']"
    by (simp add: badge_color_def)
  have ne: "[''default'', ''primary''] \<noteq> []"
    by simp
  note t = options_cell_code_spans
  have e: "options_cell bare_property = []"
    by (rule mp [OF t [of bare_property, THEN conjunct1] n])
  have some: "options_cell badge_color = ''`'' @ join ''`, `'' [''default'', ''primary''] @ ''`''
         \<and> ([''default'', ''primary''] \<noteq> [] \<longrightarrow>
              options_cell badge_color = join '', '' (map code_span [''default'', ''primary'']))"
    by (rule mp [OF spec [OF t [of badge_color, THEN conjunct2, THEN conjunct1]] b])
  have j: "options_cell badge_color = join '', '' [code_span ''default'', code_span ''primary'']"
    using mp [OF some [THEN conjunct2] ne] by simp
  have l: "options_cell badge_color = ''`default`, `primary`''"
    by (rule mp [OF t [of badge_color, THEN conjunct2, THEN conjunct2] b])
  show ?thesis
    by (intro conjI n e b ne j l)
qed

subsection \<open>C6: a component without properties\<close>

text \<open>
  C6. For a component record whose \<^verbatim>\<open>props\<close> is empty, the table of the rendered block
  is the header row of the five columns Name, Type, Default, Options and Description
  and its delimiter row, with no data row.
\<close>

theorem empty_props_header_only:
  "comp_props component = [] \<Longrightarrow>
   render_block component =
     block_head component
     @ ''| Name | Type | Default | Options | Description |\<newline>''
     @ ''| --- | --- | --- | --- | --- |\<newline>''
     @ block_tail component
   \<and> map render_row (comp_props component) = []
   \<and> row_cells ''| Name | Type | Default | Options | Description |'' =
       ['' Name '', '' Type '', '' Default '', '' Options '', '' Description '']
   \<and> row_cells ''| --- | --- | --- | --- | --- |'' =
       ['' --- '', '' --- '', '' --- '', '' --- '', '' --- '']"
  by (simp add: render_block_def table_header_def row_cells_def pipe_def backslash_def)

theorem empty_props_header_only_witness:
  "comp_props spacer = []
   \<and> render_block spacer =
     block_head spacer
     @ ''| Name | Type | Default | Options | Description |\<newline>''
     @ ''| --- | --- | --- | --- | --- |\<newline>''
     @ block_tail spacer
   \<and> map render_row (comp_props spacer) = []"
proof -
  have e: "comp_props spacer = []"
    by (simp add: spacer_def)
  from empty_props_header_only [OF e] e show ?thesis
    by blast
qed

subsection \<open>C7: rendering a structurally valid catalog never raises\<close>

text \<open>
  C7. Rendering is total over well-formed input. For every structurally valid catalog
  (every component record has its name, description, import, props and example, every
  property record its name, type and description, each of the type the data model gives
  it) rendering completes without a raise; where the literals are strings the result is
  the document of the typed renderer. The script then fails only at its boundaries:
  where the catalog is read and parsed, and where the document is written.
\<close>

theorem render_total_on_valid_catalogs:
  "valid_catalog data \<Longrightarrow>
   (\<exists>mdxContent. render_json data = Some mdxContent)
   \<and> (\<forall>catalog. decode_catalog data = Some catalog \<longrightarrow> render_json data = Some (render catalog))
   \<and> (\<forall>JSON_parse w text. files w ''full.json'' = Some text \<longrightarrow> JSON_parse text = Some data \<longrightarrow>
         (\<exists>w'. run_script JSON_parse w = Inr w') \<or> run_script JSON_parse w = Inl EACCES)"
proof -
  assume "valid_catalog data"
  then obtain m where r: "render_json data = Some m"
    using valid_catalog_renders by blast
  have "\<exists>mdxContent. render_json data = Some mdxContent"
    using r by simp
  moreover have "\<forall>catalog. decode_catalog data = Some catalog \<longrightarrow> render_json data = Some (render catalog)"
    by (simp add: render_json_decode)
  moreover have "\<forall>JSON_parse w text. files w ''full.json'' = Some text \<longrightarrow> JSON_parse text = Some data \<longrightarrow>
         (\<exists>w'. run_script JSON_parse w = Inr w') \<or> run_script JSON_parse w = Inl EACCES"
    by (simp add: run_script_def r)
  ultimately show ?thesis
    by blast
qed

theorem render_total_on_valid_catalogs_witness:
  "valid_catalog badge_json
   \<and> decode_catalog badge_json = Some [badge]
   \<and> render_json badge_json = Some (render [badge])
   \<and> files badge_world ''full.json'' = Some badge_text
   \<and> badge_parse badge_text = Some badge_json
   \<and> run_script badge_parse badge_world =
       Inr (badge_world\<lparr>files := (files badge_world)(''heroui-prompt-guide.md'' \<mapsto> render [badge]),
                        console := [''Successfully created heroui-prompt-guide.md'']\<rparr>)"
proof -
  have v: "valid_catalog badge_json"
    by (simp add: badge_json_def own_property_def)
  note t = render_total_on_valid_catalogs [OF v]
  have r: "render_json badge_json = Some (render [badge])"
    by (rule mp [OF spec [OF t [THEN conjunct2, THEN conjunct1]] decode_badge_json])
  have f: "files badge_world ''full.json'' = Some badge_text"
    by (simp add: badge_world_def)
  have p: "badge_parse badge_text = Some badge_json"
    by (simp add: badge_parse_def)
  have run: "run_script badge_parse badge_world =
       Inr (badge_world\<lparr>files := (files badge_world)(''heroui-prompt-guide.md'' \<mapsto> render [badge]),
                        console := [''Successfully created heroui-prompt-guide.md'']\<rparr>)"
    by (simp add: run_script_def f p r) (simp add: badge_world_def)
  show ?thesis
    by (intro conjI v decode_badge_json r f p run)
qed

text \<open>
  The hypothesis is needed. A property whose type is a number, a component whose
  \<^verbatim>\<open>props\<close> is missing and a property whose \<^verbatim>\<open>options\<close> is a string all make the
  runtime raise.
\<close>

lemma type_number_raises:
  "render_row_json (JObj [(''name'', JStr ''size''), (''type'', JNum ''5''), (''description'', JStr ''d'')]) = None"
  by (simp add: render_row_json_def own_property_def)

lemma props_missing_raises:
  "render_block_json (JObj [(''name'', JStr ''Badge''), (''description'', JStr ''x''),
     (''import'', JStr ''i''), (''example'', JStr ''e'')]) = None"
  by (simp add: render_block_json_def own_property_def)

lemma options_string_raises:
  "render_row_json (JObj [(''name'', JStr ''size''), (''type'', JStr ''string''),
     (''options'', JStr ''sm, md''), (''description'', JStr ''d'')]) = None"
  by (simp add: render_row_json_def own_property_def)

text \<open>Literals that are numbers or booleans are printed by the runtime.\<close>

lemma number_literals_render:
  "render_row_json (JObj [(''name'', JStr ''gap''), (''type'', JStr ''number''),
     (''default'', JNum ''12''), (''options'', JArr [JNum ''4'', JNum ''0.5'', JBool True]),
     (''description'', JStr ''d'')])
   = Some ''| `gap` | `number` | `12` | `4`, `0.5`, `true` | d |''"
  by (simp add: render_row_json_def own_property_def pipe_def)

subsection \<open>C8: the rendered document depends on the catalog alone\<close>

text \<open>
  C8. Rendering is deterministic, and its result is a function of the catalog alone. Two
  parsed values with the same catalog part (the members the data model names, whatever
  else the values hold and in whatever order) render alike: to byte-identical documents,
  or both to a raise. Two parsed values that decode to the same catalog have the same
  catalog part, the canonical value of that catalog, and so render to byte-identical
  documents.
\<close>

theorem render_depends_on_catalog_alone:
  "(catalog_part d1 = catalog_part d2 \<longrightarrow> render_json d1 = render_json d2)
   \<and> (decode_catalog d1 = Some catalog \<longrightarrow> decode_catalog d2 = Some catalog \<longrightarrow>
        catalog_part d1 = encode_catalog catalog \<and> catalog_part d1 = catalog_part d2
        \<and> render_json d1 = render_json d2 \<and> render_json d1 \<noteq> None)"
proof (intro conjI impI)
  assume "catalog_part d1 = catalog_part d2"
  then have "render_json (catalog_part d1) = render_json (catalog_part d2)"
    by simp
  then show "render_json d1 = render_json d2"
    by (simp only: render_json_catalog_part)
next
  assume d1: "decode_catalog d1 = Some catalog" and d2: "decode_catalog d2 = Some catalog"
  show c1: "catalog_part d1 = encode_catalog catalog"
    by (rule decode_catalog_part [OF d1])
  show same: "catalog_part d1 = catalog_part d2"
    by (simp only: c1 decode_catalog_part [OF d2])
  then have "render_json (catalog_part d1) = render_json (catalog_part d2)"
    by simp
  then show "render_json d1 = render_json d2"
    by (simp only: render_json_catalog_part)
  show "render_json d1 \<noteq> None"
    using valid_catalog_renders [OF decode_catalog_valid [OF d1]] by auto
qed

theorem render_depends_on_catalog_alone_witness:
  "decode_catalog badge_json = Some [badge]
   \<and> decode_catalog badge_json_annotated = Some [badge]
   \<and> badge_json \<noteq> badge_json_annotated
   \<and> catalog_part badge_json = catalog_part badge_json_annotated
   \<and> render_json badge_json = render_json badge_json_annotated
   \<and> render_json badge_json \<noteq> None"
proof -
  note t = render_depends_on_catalog_alone [of badge_json badge_json_annotated "[badge]"]
  note both = mp [OF mp [OF t [THEN conjunct2] decode_badge_json] decode_badge_json_annotated]
  have differ: "badge_json \<noteq> badge_json_annotated"
    by (simp add: badge_json_def badge_json_annotated_def)
  have part: "catalog_part badge_json = catalog_part badge_json_annotated"
    by (rule both [THEN conjunct2, THEN conjunct1])
  have same: "render_json badge_json = render_json badge_json_annotated"
    by (rule mp [OF t [THEN conjunct1] part])
  have some: "render_json badge_json \<noteq> None"
    by (rule both [THEN conjunct2, THEN conjunct2, THEN conjunct2])
  show ?thesis
    by (intro conjI decode_badge_json decode_badge_json_annotated differ part same some)
qed

subsection \<open>C9: options present and empty\<close>

text \<open>
  C9. For a property record whose \<^verbatim>\<open>options\<close> is present and is the empty sequence,
  the rendered options cell is not empty: it is two inline-code markers with nothing
  between them, where the cell of a record without \<^verbatim>\<open>options\<close> is empty.
\<close>

theorem empty_options_cell_markers:
  "prop_options prop = Some [] \<Longrightarrow>
   options_cell prop = ''``'' \<and> options_cell prop \<noteq> []
   \<and> options_cell (prop\<lparr>prop_options := None\<rparr>) = []"
  by (simp add: options_cell_def)

theorem empty_options_cell_markers_witness:
  "prop_options no_options = Some []
   \<and> options_cell no_options = ''``''
   \<and> render_row no_options = ''| `size` | `string` |  | `` | The size. |''"
proof -
  have e: "prop_options no_options = Some []"
    by (simp add: no_options_def)
  have c: "options_cell no_options = ''``''"
    using empty_options_cell_markers [OF e] by (rule conjunct1)
  have "render_row no_options = ''| `size` | `string` |  | '' @ options_cell no_options @ '' | The size. |''"
    by (simp add: no_options_def render_row_def name_cell_def type_cell_def default_cell_def pipe_def)
  then have r: "render_row no_options = ''| `size` | `string` |  | `` | The size. |''"
    unfolding c by simp
  show ?thesis
    by (intro conjI e c r)
qed

subsection \<open>C10: the escaping is not idempotent\<close>

text \<open>
  C10. The escaping of the type puts a backslash before every \<^verbatim>\<open>|\<close>, also before one
  that a backslash precedes already. For every string holding a \<^verbatim>\<open>|\<close>, escaping twice
  gives another string than escaping once; a backslash followed by \<^verbatim>\<open>|\<close> becomes two
  backslashes followed by \<^verbatim>\<open>|\<close>.
\<close>

theorem replace_pipe_not_idempotent:
  "(pipe \<in> set t \<longrightarrow> replace_pipe (replace_pipe t) \<noteq> replace_pipe t)
   \<and> replace_pipe (a @ [backslash, pipe] @ b) =
       replace_pipe a @ [backslash, backslash, pipe] @ replace_pipe b
   \<and> replace_pipe [backslash, pipe] = [backslash, backslash, pipe]
   \<and> (prop_type prop = [backslash, pipe] \<longrightarrow>
        type_cell prop = ''`'' @ [backslash, backslash, pipe] @ ''`'')"
proof (intro conjI impI)
  assume mem: "pipe \<in> set t"
  show "replace_pipe (replace_pipe t) \<noteq> replace_pipe t"
  proof
    assume eq: "replace_pipe (replace_pipe t) = replace_pipe t"
    from mem have "filter (\<lambda>c. c = pipe) t \<noteq> []"
      by (simp add: filter_empty_conv)
    then have pos: "0 < length (filter (\<lambda>c. c = pipe) t)"
      by simp
    have "length (replace_pipe (replace_pipe t)) =
        length (replace_pipe t) + length (filter (\<lambda>c. c = pipe) t)"
      by (simp only: length_replace_pipe pipes_replace_pipe)
    with eq pos show False
      by simp
  qed
next
  show "replace_pipe (a @ [backslash, pipe] @ b) =
       replace_pipe a @ [backslash, backslash, pipe] @ replace_pipe b"
    by (simp add: replace_pipe_append)
next
  show "replace_pipe [backslash, pipe] = [backslash, backslash, pipe]"
    by simp
next
  assume "prop_type prop = [backslash, pipe]"
  then show "type_cell prop = ''`'' @ [backslash, backslash, pipe] @ ''`''"
    by (simp add: type_cell_def)
qed

theorem replace_pipe_not_idempotent_witness:
  "pipe \<in> set ''default | primary''
   \<and> replace_pipe ''default | primary'' = ''default '' @ [backslash] @ ''| primary''
   \<and> replace_pipe (replace_pipe ''default | primary'') =
       ''default '' @ [backslash, backslash] @ ''| primary''
   \<and> replace_pipe (replace_pipe ''default | primary'') \<noteq> replace_pipe ''default | primary''"
proof -
  have m: "pipe \<in> set ''default | primary''"
    by (simp add: pipe_def)
  have ne: "replace_pipe (replace_pipe ''default | primary'') \<noteq> replace_pipe ''default | primary''"
    by (rule mp [OF replace_pipe_not_idempotent [of "''default | primary''", THEN conjunct1] m])
  have once: "replace_pipe ''default | primary'' = ''default '' @ [backslash] @ ''| primary''"
    by (simp add: pipe_def)
  have twice: "replace_pipe (replace_pipe ''default | primary'') =
       ''default '' @ [backslash, backslash] @ ''| primary''"
    by (simp add: pipe_def backslash_def)
  show ?thesis
    by (intro conjI m once twice ne)
qed

end
